theory Spec2Isabelle
  imports Complex_Main "HOL-Library.Word"
begin

section \<open>Go's float64: IEEE 754 binary64 with round to nearest, ties to even\<close>

text \<open>
  A float64 is a finite real (\<open>Fin 0\<close> is the positive zero), the negative zero, an
  infinity or a NaN (all NaNs are one value: the program never looks at a payload).
  Every operation below returns a representable value; \<open>is_float64\<close> says which
  \<open>Fin x\<close> are representable.
\<close>

datatype float64 = Fin real | NZero | PInf | NInf | NaN

text \<open>Round to the nearest integer, ties to the even one.\<close>

definition rne :: "real \<Rightarrow> int" where
  "rne x = (let f = \<lfloor>x\<rfloor>; d = x - of_int f in
     if d < 1 / 2 then f else if 1 / 2 < d then f + 1 else if even f then f else f + 1)"

text \<open>
  The exponent of the binade of \<open>x\<close>, not below that of the subnormal numbers, and the
  distance between neighbouring binary64 values there (53 bits of precision).
\<close>

definition expo :: "real \<Rightarrow> int" where
  "expo x = (if x = 0 then - 1022 else max \<lfloor>log 2 \<bar>x\<bar>\<rfloor> (- 1022))"

definition ulp :: "real \<Rightarrow> real" where
  "ulp x = 2 powr of_int (expo x - 52)"

definition rnd64 :: "real \<Rightarrow> real" where
  "rnd64 x = of_int (rne (x / ulp x)) * ulp x"

text \<open>
  The rounded result of an operation whose exact value is \<open>x\<close>; \<open>neg\<close> is the sign a
  zero result takes. What rounds to \<open>2 ^ 1024\<close> in magnitude overflows to an infinity.
\<close>

definition round64 :: "bool \<Rightarrow> real \<Rightarrow> float64" where
  "round64 neg x = (let y = rnd64 x in
     if 2 ^ 1024 \<le> y then PInf
     else if y \<le> - (2 ^ 1024) then NInf
     else if y = 0 then (if neg then NZero else Fin 0)
     else Fin y)"

fun is_nan :: "float64 \<Rightarrow> bool" where
  "is_nan NaN = True"
| "is_nan _ = False"

fun is_inf :: "float64 \<Rightarrow> bool" where
  "is_inf PInf = True"
| "is_inf NInf = True"
| "is_inf _ = False"

fun is_zero :: "float64 \<Rightarrow> bool" where
  "is_zero (Fin x) = (x = 0)"
| "is_zero NZero = True"
| "is_zero _ = False"

fun is_finite :: "float64 \<Rightarrow> bool" where
  "is_finite (Fin x) = True"
| "is_finite NZero = True"
| "is_finite _ = False"

text \<open>The sign bit (of a NaN: unused) and the real value of a finite float64.\<close>

fun sign :: "float64 \<Rightarrow> bool" where
  "sign (Fin x) = (x < 0)"
| "sign NZero = True"
| "sign PInf = False"
| "sign NInf = True"
| "sign NaN = False"

fun val :: "float64 \<Rightarrow> real" where
  "val (Fin x) = x"
| "val _ = 0"

definition finf :: "bool \<Rightarrow> float64" where
  "finf neg = (if neg then NInf else PInf)"

definition fzero :: "bool \<Rightarrow> float64" where
  "fzero neg = (if neg then NZero else Fin 0)"

fun is_float64 :: "float64 \<Rightarrow> bool" where
  "is_float64 (Fin x) = (rnd64 x = x \<and> \<bar>x\<bar> < 2 ^ 1024)"
| "is_float64 _ = True"

text \<open>Go's \<open>*\<close>, \<open>/\<close> and \<open>+\<close> on float64 operands, and the comparison \<open>==\<close>.\<close>

definition fmul :: "float64 \<Rightarrow> float64 \<Rightarrow> float64" where
  "fmul a b =
     (if is_nan a \<or> is_nan b then NaN
      else if is_inf a \<or> is_inf b then
        (if is_zero a \<or> is_zero b then NaN else finf (sign a \<noteq> sign b))
      else round64 (sign a \<noteq> sign b) (val a * val b))"

definition fdiv :: "float64 \<Rightarrow> float64 \<Rightarrow> float64" where
  "fdiv a b =
     (if is_nan a \<or> is_nan b then NaN
      else if is_inf a then (if is_inf b then NaN else finf (sign a \<noteq> sign b))
      else if is_inf b then fzero (sign a \<noteq> sign b)
      else if is_zero b then (if is_zero a then NaN else finf (sign a \<noteq> sign b))
      else round64 (sign a \<noteq> sign b) (val a / val b))"

definition fadd :: "float64 \<Rightarrow> float64 \<Rightarrow> float64" where
  "fadd a b =
     (if is_nan a \<or> is_nan b then NaN
      else if is_inf a then (if is_inf b \<and> sign a \<noteq> sign b then NaN else a)
      else if is_inf b then b
      else round64 (sign a \<and> sign b) (val a + val b))"


text \<open>A decimal constant of the source, converted to float64 where it is used.\<close>

definition const64 :: "real \<Rightarrow> float64" where
  "const64 x = round64 (x < 0) x"

text \<open>
  The values of the drivers' result types. A float32 is one of the values a float64
  holds too, and the conversion \<open>float64(x)\<close> is exact: the model carries a float32
  as that value. The conversions of the unsigned integers are exact as well.
\<close>

datatype float32 = F32 float64

fun float64_of_float32 :: "float32 \<Rightarrow> float64" where
  "float64_of_float32 (F32 v) = v"

definition float64_of_uint16 :: "16 word \<Rightarrow> float64" where
  "float64_of_uint16 w = Fin (real (unat w))"

definition float64_of_uint32 :: "32 word \<Rightarrow> float64" where
  "float64_of_uint32 w = Fin (real (unat w))"

section \<open>calcAbsoluteHumidity\<close>

text \<open>
  \<open>math.Exp\<close> belongs to Go's library, not to this program: the function takes it as
  the parameter \<open>mexp\<close>. \<open>*\<close> and \<open>/\<close> associate to the left.
\<close>

definition calcAbsoluteHumidity ::
    "(float64 \<Rightarrow> float64) \<Rightarrow> float64 \<Rightarrow> float64 \<Rightarrow> float64" where
  "calcAbsoluteHumidity mexp t rh =
     fdiv
       (fmul
         (fmul
           (fmul (const64 6.112)
             (mexp (fdiv (fmul (const64 17.67) t) (fadd t (const64 243.5)))))
           rh)
         (const64 2.1674))
       (fadd (const64 273.15) t)"

text \<open>
  What the theorems assume of \<open>math.Exp\<close>: the special cases of its documentation; on
  finite float64 arguments up to 64 a finite result between 0 and \<open>2 ^ 1020\<close>; on arguments of
  magnitude up to 64 a relative error of at most \<open>2 powr (- 52)\<close> (the library states an
  error below one unit in the last place).
\<close>

definition exp_spec :: "(float64 \<Rightarrow> float64) \<Rightarrow> bool" where
  "exp_spec mexp \<longleftrightarrow>
     mexp NaN = NaN \<and> mexp PInf = PInf \<and> mexp NInf = Fin 0 \<and>
     (\<forall>a. is_finite a \<and> is_float64 a \<and> val a \<le> 64 \<longrightarrow>
        (\<exists>y. mexp a = Fin y \<and> 0 \<le> y \<and> y \<le> 2 ^ 1020)) \<and>
     (\<forall>a. is_finite a \<and> is_float64 a \<and> \<bar>val a\<bar> \<le> 64 \<longrightarrow>
        \<bar>val (mexp a) - exp (val a)\<bar> \<le> 2 powr (- 52) * exp (val a))"

text \<open>
  An instance of \<open>math.Exp\<close> for concrete runs: the special cases of its
  documentation, and the exponential rounded to nearest otherwise.
\<close>

definition exp64 :: "float64 \<Rightarrow> float64" where
  "exp64 x =
     (if is_nan x then NaN
      else if x = PInf then PInf
      else if x = NInf then Fin 0
      else round64 False (exp (val x)))"

text \<open>
  The formula as the specification writes it, \<open>computeAbsoluteHumidity\<close>:
  \<open>ah = 6.112 * exp(17.67*T / (T+243.5)) * RH * 2.1674 / (273.15+T)\<close> in double
  precision, the saturation term first.
\<close>

definition computeAbsoluteHumidity ::
    "(float64 \<Rightarrow> float64) \<Rightarrow> float64 \<Rightarrow> float64 \<Rightarrow> float64" where
  "computeAbsoluteHumidity mexp T RH =
     (let saturation = fmul (const64 6.112)
            (mexp (fdiv (fmul (const64 17.67) T) (fadd T (const64 243.5))));
          density = fmul (fmul saturation RH) (const64 2.1674)
      in fdiv density (fadd (const64 273.15) T))"

section \<open>The drivers, the gauges and the log\<close>

text \<open>
  The drivers are gobot's. A driver value here holds what the device answers to each
  call of one polling cycle: an error (\<open>Inl\<close>) or the value read. A nil driver
  pointer is \<open>None\<close>.
\<close>

type_synonym error = string

record BME280Driver =
  bme_Temperature :: "error + float32"
  bme_Pressure :: "error + float32"
  bme_Humidity :: "error + float32"

record SHT2xDriver =
  sht_Temperature :: "error + float32"
  sht_Humidity :: "error + float32"

record TSL2561Driver =
  GetLuminocity :: "error + 16 word \<times> 16 word"
  CalculateLux :: "16 word \<Rightarrow> 16 word \<Rightarrow> 32 word"

text \<open>
  What a cycle does, in order: a call of a driver's read method, a \<open>Set\<close> on the child
  of a gauge vector (metric name, label values, value), a \<open>log.Printf\<close> (format, the
  errors printed, \<open>None\<close> for nil).
\<close>

datatype event =
    SensorRead string string
  | GaugeSet string "string list" float64
  | LogPrintf string "error option list"

text \<open>The gauge vectors hold the last value set for each (metric name, label values).\<close>

type_synonym registry = "string \<times> string list \<Rightarrow> float64 option"

record state =
  gauges :: registry
  trace :: "event list"

definition sensor_read :: "string \<Rightarrow> string \<Rightarrow> state \<Rightarrow> state" where
  "sensor_read dev meth s = s\<lparr>trace := trace s @ [SensorRead dev meth]\<rparr>"

definition gauge_set :: "string \<Rightarrow> string list \<Rightarrow> float64 \<Rightarrow> state \<Rightarrow> state" where
  "gauge_set name lvs v s =
     s\<lparr>gauges := (gauges s)((name, lvs) \<mapsto> v), trace := trace s @ [GaugeSet name lvs v]\<rparr>"

definition log_printf :: "string \<Rightarrow> error option list \<Rightarrow> state \<Rightarrow> state" where
  "log_printf fmt args s = s\<lparr>trace := trace s @ [LogPrintf fmt args]\<rparr>"

fun err_of :: "error + 'a \<Rightarrow> error option" where
  "err_of (Inl e) = Some e"
| "err_of (Inr v) = None"

section \<open>updateSensors\<close>

definition update_bme280 ::
    "(float64 \<Rightarrow> float64) \<Rightarrow> BME280Driver option \<Rightarrow> state \<Rightarrow> state" where
  "update_bme280 mexp bme s =
     (case bme of
        None \<Rightarrow> s
      | Some d \<Rightarrow>
          (let s1 = sensor_read ''bme280'' ''Temperature'' s;
               s2 = sensor_read ''bme280'' ''Pressure'' s1;
               s3 = sensor_read ''bme280'' ''Humidity'' s2
           in case (bme_Temperature d, bme_Pressure d, bme_Humidity d) of
                (Inr t, Inr p, Inr h) \<Rightarrow>
                  (let s4 = gauge_set ''sensor_temperature_celsius'' [''bme280'', ''indoor'']
                              (float64_of_float32 t) s3;
                       s5 = gauge_set ''sensor_pressure_hpa'' [''bme280'', ''indoor'']
                              (fdiv (float64_of_float32 p) (const64 100.0)) s4;
                       s6 = gauge_set ''sensor_humidity_percent'' [''bme280'', ''indoor'']
                              (float64_of_float32 h) s5;
                       ah = calcAbsoluteHumidity mexp (float64_of_float32 t) (float64_of_float32 h)
                   in gauge_set ''sensor_absolute_humidity_g_m3'' [''bme280'', ''indoor''] ah s6)
              | (rT, rP, rH) \<Rightarrow>
                  log_printf ''BME280 read error: T=%v, P=%v, H=%v''
                    [err_of rT, err_of rP, err_of rH] s3))"

definition update_sht2x ::
    "(float64 \<Rightarrow> float64) \<Rightarrow> SHT2xDriver option \<Rightarrow> state \<Rightarrow> state" where
  "update_sht2x mexp sht s =
     (case sht of
        None \<Rightarrow> s
      | Some d \<Rightarrow>
          (let s1 = sensor_read ''sht2x'' ''Temperature'' s;
               s2 = sensor_read ''sht2x'' ''Humidity'' s1
           in case (sht_Temperature d, sht_Humidity d) of
                (Inr t, Inr h) \<Rightarrow>
                  (let s3 = gauge_set ''sensor_temperature_celsius'' [''sht2x'', ''indoor'']
                              (float64_of_float32 t) s2;
                       s4 = gauge_set ''sensor_humidity_percent'' [''sht2x'', ''indoor'']
                              (float64_of_float32 h) s3;
                       ah = calcAbsoluteHumidity mexp (float64_of_float32 t) (float64_of_float32 h)
                   in gauge_set ''sensor_absolute_humidity_g_m3'' [''sht2x'', ''indoor''] ah s4)
              | (rT, rH) \<Rightarrow>
                  log_printf ''SHT2x read error: T=%v, H=%v'' [err_of rT, err_of rH] s2))"

definition update_tsl2561 :: "TSL2561Driver option \<Rightarrow> state \<Rightarrow> state" where
  "update_tsl2561 tsl s =
     (case tsl of
        None \<Rightarrow> s
      | Some d \<Rightarrow>
          (let s1 = sensor_read ''tsl2561'' ''GetLuminocity'' s
           in case GetLuminocity d of
                Inl err \<Rightarrow> log_printf ''TSL2561 read error: %v'' [Some err] s1
              | Inr (bb, ir) \<Rightarrow>
                  (let lux = CalculateLux d bb ir;
                       s2 = gauge_set ''sensor_illuminance_lux'' [''tsl2561'', ''indoor'']
                              (float64_of_uint32 lux) s1;
                       s3 = gauge_set ''sensor_light_raw'' [''tsl2561'', ''indoor'', ''broadband'']
                              (float64_of_uint16 bb) s2
                   in gauge_set ''sensor_light_raw'' [''tsl2561'', ''indoor'', ''infrared'']
                        (float64_of_uint16 ir) s3)))"

definition updateSensors ::
    "(float64 \<Rightarrow> float64) \<Rightarrow> BME280Driver option \<Rightarrow> SHT2xDriver option \<Rightarrow>
     TSL2561Driver option \<Rightarrow> state \<Rightarrow> state" where
  "updateSensors mexp bme sht tsl s =
     update_tsl2561 tsl (update_sht2x mexp sht (update_bme280 mexp bme s))"

text \<open>The events of each block of \<open>updateSensors\<close>, as it adds them to the trace.\<close>

definition bme280_events :: "(float64 \<Rightarrow> float64) \<Rightarrow> BME280Driver option \<Rightarrow> event list" where
  "bme280_events mexp bme = trace (update_bme280 mexp bme \<lparr>gauges = Map.empty, trace = []\<rparr>)"

definition sht2x_events :: "(float64 \<Rightarrow> float64) \<Rightarrow> SHT2xDriver option \<Rightarrow> event list" where
  "sht2x_events mexp sht = trace (update_sht2x mexp sht \<lparr>gauges = Map.empty, trace = []\<rparr>)"

definition tsl2561_events :: "TSL2561Driver option \<Rightarrow> event list" where
  "tsl2561_events tsl = trace (update_tsl2561 tsl \<lparr>gauges = Map.empty, trace = []\<rparr>)"

text \<open>The events a cycle adds to the trace, the \<open>Set\<close> calls and the reads of one device.\<close>

definition cycle_events ::
    "(float64 \<Rightarrow> float64) \<Rightarrow> BME280Driver option \<Rightarrow> SHT2xDriver option \<Rightarrow>
     TSL2561Driver option \<Rightarrow> state \<Rightarrow> event list" where
  "cycle_events mexp bme sht tsl s =
     drop (length (trace s)) (trace (updateSensors mexp bme sht tsl s))"

fun is_write_for :: "string \<Rightarrow> event \<Rightarrow> bool" where
  "is_write_for dev (GaugeSet name (d # lvs) v) = (d = dev)"
| "is_write_for dev _ = False"

fun is_read_for :: "string \<Rightarrow> event \<Rightarrow> bool" where
  "is_read_for dev (SensorRead d meth) = (d = dev)"
| "is_read_for dev _ = False"

definition writes_for :: "string \<Rightarrow> event list \<Rightarrow> event list" where
  "writes_for dev evs = filter (is_write_for dev) evs"

definition reads_for :: "string \<Rightarrow> event list \<Rightarrow> event list" where
  "reads_for dev evs = filter (is_read_for dev) evs"

fun write_keys :: "event list \<Rightarrow> (string \<times> string list) list" where
  "write_keys [] = []"
| "write_keys (GaugeSet name lvs v # evs) = (name, lvs) # write_keys evs"
| "write_keys (e # evs) = write_keys evs"

section \<open>main: the start of the sensors and the polling loop\<close>

text \<open>
  The hardware as \<open>main\<close> meets it: the result of \<open>r.Connect()\<close>, the result of each
  driver's \<open>Start()\<close>, and what each device answers in cycle \<open>0, 1, 2, ...\<close> (cycle 0 is
  the update made at once, cycle \<open>n\<close> the one of the \<open>n\<close>-th tick).
\<close>

record hardware =
  connect :: "error option"
  bme_start :: "error option"
  sht_start :: "error option"
  tsl_start :: "error option"
  bme_dev :: "nat \<Rightarrow> BME280Driver"
  sht_dev :: "nat \<Rightarrow> SHT2xDriver"
  tsl_dev :: "nat \<Rightarrow> TSL2561Driver"

text \<open>The warning sign that opens the three messages (U+26A0 U+FE0F, in UTF-8).\<close>

definition warning_sign :: string where
  "warning_sign = [CHR 0xE2, CHR 0x9A, CHR 0xA0, CHR 0xEF, CHR 0xB8, CHR 0x8F]"

text \<open>
  The state after the first \<open>n\<close> cycles of the loop. The driver variables are
  \<open>None\<close> (nil) or the device.
\<close>

fun poll_cycles ::
    "(float64 \<Rightarrow> float64) \<Rightarrow> (nat \<Rightarrow> BME280Driver) option \<Rightarrow>
     (nat \<Rightarrow> SHT2xDriver) option \<Rightarrow> (nat \<Rightarrow> TSL2561Driver) option \<Rightarrow>
     nat \<Rightarrow> state \<Rightarrow> state" where
  "poll_cycles mexp bme sht tsl 0 s = s"
| "poll_cycles mexp bme sht tsl (Suc n) s =
     updateSensors mexp (map_option (\<lambda>d. d n) bme) (map_option (\<lambda>d. d n) sht)
       (map_option (\<lambda>d. d n) tsl) (poll_cycles mexp bme sht tsl n s)"

text \<open>
  \<open>main\<close> up to the end of the \<open>n\<close>-th cycle: \<open>Inl\<close> is \<open>log.Fatalf\<close> (the process
  exits), \<open>Inr\<close> the state reached. The gauge vectors start with no child.
\<close>

definition main_cycles ::
    "(float64 \<Rightarrow> float64) \<Rightarrow> hardware \<Rightarrow> nat \<Rightarrow> event list + state" where
  "main_cycles mexp hw n =
     (case connect hw of
        Some err \<Rightarrow> Inl [LogPrintf ''Raspberry Pi connect failed: %v'' [Some err]]
      | None \<Rightarrow>
          (let s0 = \<lparr>gauges = Map.empty, trace = [LogPrintf ''Initializing sensors...'' []]\<rparr>;
               (bme, s1) =
                 (case bme_start hw of
                    Some err \<Rightarrow>
                      (None, log_printf (warning_sign @ '' BME280 init failed: %v'') [Some err] s0)
                  | None \<Rightarrow> (Some (bme_dev hw), s0));
               (sht, s2) =
                 (case sht_start hw of
                    Some err \<Rightarrow>
                      (None, log_printf (warning_sign @ '' SHT2x init failed: %v'') [Some err] s1)
                  | None \<Rightarrow> (Some (sht_dev hw), s1));
               (tsl, s3) =
                 (case tsl_start hw of
                    Some err \<Rightarrow>
                      (None, log_printf (warning_sign @ '' TSL2561 init failed: %v'') [Some err] s2)
                  | None \<Rightarrow> (Some (tsl_dev hw), s2))
           in Inr (poll_cycles mexp bme sht tsl n s3)))"

text \<open>The series the cycle may write: metric name and label values (device, location, type).\<close>

definition gauge_keys :: "(string \<times> string list) set" where
  "gauge_keys =
     {(''sensor_temperature_celsius'', [''bme280'', ''indoor'']),
      (''sensor_pressure_hpa'', [''bme280'', ''indoor'']),
      (''sensor_humidity_percent'', [''bme280'', ''indoor'']),
      (''sensor_absolute_humidity_g_m3'', [''bme280'', ''indoor'']),
      (''sensor_temperature_celsius'', [''sht2x'', ''indoor'']),
      (''sensor_humidity_percent'', [''sht2x'', ''indoor'']),
      (''sensor_absolute_humidity_g_m3'', [''sht2x'', ''indoor'']),
      (''sensor_illuminance_lux'', [''tsl2561'', ''indoor'']),
      (''sensor_light_raw'', [''tsl2561'', ''indoor'', ''broadband'']),
      (''sensor_light_raw'', [''tsl2561'', ''indoor'', ''infrared''])}"

section \<open>Inputs of the examples\<close>

text \<open>
  The readings of the scenarios (22.0 degrees, 101325 Pa, 45.0 percent; broadband 100 and
  infrared 20, with a fixed value for the lux conversion) and devices whose read fails.
\<close>

definition example_bme :: BME280Driver where
  "example_bme = \<lparr>bme_Temperature = Inr (F32 (Fin 22.0)), bme_Pressure = Inr (F32 (Fin 101325)),
     bme_Humidity = Inr (F32 (Fin 45.0))\<rparr>"

definition failing_bme :: BME280Driver where
  "failing_bme = \<lparr>bme_Temperature = Inr (F32 (Fin 22.0)), bme_Pressure = Inl ''i2c: read failed'',
     bme_Humidity = Inr (F32 (Fin 45.0))\<rparr>"


definition example_sht :: SHT2xDriver where
  "example_sht = \<lparr>sht_Temperature = Inr (F32 (Fin 21.5)), sht_Humidity = Inr (F32 (Fin 40.0))\<rparr>"

definition failing_sht :: SHT2xDriver where
  "failing_sht = \<lparr>sht_Temperature = Inl ''i2c: read failed'', sht_Humidity = Inr (F32 (Fin 40.0))\<rparr>"

definition example_tsl :: TSL2561Driver where
  "example_tsl = \<lparr>GetLuminocity = Inr (100, 20), CalculateLux = (\<lambda>bb ir. 42)\<rparr>"

definition failing_tsl :: TSL2561Driver where
  "failing_tsl = \<lparr>GetLuminocity = Inl ''i2c: read failed'', CalculateLux = (\<lambda>bb ir. 42)\<rparr>"

definition init_state :: state where
  "init_state = \<lparr>gauges = Map.empty, trace = []\<rparr>"

definition example_hardware :: hardware where
  "example_hardware =
     \<lparr>connect = None, bme_start = None, sht_start = Some ''i2c: no device'', tsl_start = None,
      bme_dev = (\<lambda>n. example_bme), sht_dev = (\<lambda>n. example_sht), tsl_dev = (\<lambda>n. example_tsl)\<rparr>"

section \<open>Rounding: evaluation at concrete values\<close>

lemma rne_of_int [simp]: "rne (of_int n) = n"
  by (simp add: rne_def)

lemma rne_0 [simp]: "rne 0 = 0"
  using rne_of_int [of 0] by simp

lemma expo_eqI:
  assumes "2 powr of_int k \<le> \<bar>x\<bar>" and "\<bar>x\<bar> < 2 powr of_int (k + 1)" and "- 1022 \<le> k"
  shows "expo x = k"
proof -
  have "(0::real) < 2 powr of_int k"
    by simp
  with assms(1) have pos: "0 < \<bar>x\<bar>"
    by linarith
  have "\<lfloor>log 2 \<bar>x\<bar>\<rfloor> = k"
    using floor_log_eq_powr_iff [of "\<bar>x\<bar>" 2 k] pos assms(1,2) by simp
  moreover from pos have "x \<noteq> 0"
    by auto
  ultimately show ?thesis
    using assms(3) by (simp add: expo_def)
qed

lemma expo_subnormal:
  assumes "\<bar>x\<bar> < 2 powr (- 1022)"
  shows "expo x = - 1022"
proof (cases "x = 0")
  case True
  then show ?thesis by (simp add: expo_def)
next
  case False
  then have pos: "0 < \<bar>x\<bar>" by simp
  have "log 2 \<bar>x\<bar> < - 1022"
    using assms pos by (simp add: log_less_iff)
  then have "\<lfloor>log 2 \<bar>x\<bar>\<rfloor> \<le> - 1022"
    by (simp add: floor_le_iff)
  with False show ?thesis by (simp add: expo_def)
qed

lemma rnd64_eval:
  assumes "2 powr of_int k \<le> \<bar>x\<bar>" and "\<bar>x\<bar> < 2 powr of_int (k + 1)" and "- 1022 \<le> k"
    and "u = 2 powr of_int (k - 52)"
  shows "rnd64 x = of_int (rne (x / u)) * u"
  using expo_eqI [OF assms(1-3)] assms(4) by (simp add: rnd64_def ulp_def)

lemma rnd64_0 [simp]: "rnd64 0 = 0"
  by (simp add: rnd64_def)

lemma const64_100: "const64 100 = Fin 100"
proof -
  have "rnd64 100 = of_int (rne (100 / (1 / 2 ^ 46))) * (1 / 2 ^ 46)"
    by (rule rnd64_eval [where k = 6]) (simp_all add: powr_minus divide_simps)
  also have "\<dots> = 100"
    by (simp add: rne_def)
  finally show ?thesis
    by (simp add: const64_def round64_def)
qed

lemma fdiv_Fin_100:
  "fdiv (Fin x) (const64 100) = round64 (x < 0) (x / 100)"
  by (simp add: fdiv_def const64_100)

lemma round64_1013_25: "round64 False (101325 / 100) = Fin 1013.25"
proof -
  have "rnd64 (101325 / 100) = of_int (rne (101325 / 100 / (1 / 2 ^ 43))) * (1 / 2 ^ 43)"
    by (rule rnd64_eval [where k = 9]) (simp_all add: powr_minus divide_simps)
  also have "\<dots> = 101325 / 100"
    by (simp add: rne_def)
  finally show ?thesis
    by (simp add: round64_def)
qed

section \<open>Rounding: order, symmetry and error\<close>

lemma rne_lower: "\<lfloor>x\<rfloor> \<le> rne x"
  by (simp add: rne_def Let_def)

lemma rne_upper: "rne x \<le> \<lfloor>x\<rfloor> + 1"
  by (simp add: rne_def Let_def)

lemma rne_mono:
  assumes "x \<le> y"
  shows "rne x \<le> rne y"
proof (cases "\<lfloor>x\<rfloor> = \<lfloor>y\<rfloor>")
  case True
  with assms have "x - of_int \<lfloor>x\<rfloor> \<le> y - of_int \<lfloor>y\<rfloor>"
    by simp
  with True show ?thesis
    by (auto simp add: rne_def Let_def)
next
  case False
  with assms have "\<lfloor>x\<rfloor> < \<lfloor>y\<rfloor>"
    by (simp add: floor_mono order.not_eq_order_implies_strict)
  then have "rne x \<le> \<lfloor>y\<rfloor>"
    using rne_upper [of x] by linarith
  then show ?thesis
    using rne_lower [of y] by linarith
qed

lemma rne_ge_int: "of_int n \<le> x \<Longrightarrow> n \<le> rne x"
  using rne_mono [of "of_int n" x] by simp

lemma rne_le_int: "x \<le> of_int n \<Longrightarrow> rne x \<le> n"
  using rne_mono [of x "of_int n"] by simp

lemma rne_err: "\<bar>of_int (rne x) - x\<bar> \<le> 1 / 2"
proof -
  have "of_int \<lfloor>x\<rfloor> \<le> x" "x < of_int \<lfloor>x\<rfloor> + 1"
    by linarith+
  then show ?thesis
    by (auto simp add: rne_def Let_def)
qed

lemma rne_minus: "rne (- x) = - rne x"
proof (cases "x = of_int \<lfloor>x\<rfloor>")
  case True
  then obtain n where "x = of_int n" ..
  then have "- x = of_int (- n)" by simp
  then show ?thesis
    unfolding \<open>x = of_int n\<close> by (metis rne_of_int)
next
  case False
  then have f: "\<lfloor>- x\<rfloor> = - \<lfloor>x\<rfloor> - 1"
    by (simp add: floor_minus ceiling_altdef)
  show ?thesis
    by (auto simp add: rne_def Let_def f)
qed

lemma expo_ge: "- 1022 \<le> expo x"
  by (simp add: expo_def)

lemma expo_minus [simp]: "expo (- x) = expo x"
  by (simp add: expo_def)

lemma expo_abs [simp]: "expo \<bar>x\<bar> = expo x"
  by (simp add: expo_def)

lemma expo_upper: "\<bar>x\<bar> < 2 powr of_int (expo x + 1)"
proof (cases "x = 0")
  case True
  then show ?thesis by simp
next
  case False
  then have pos: "0 < \<bar>x\<bar>" by simp
  have "log 2 \<bar>x\<bar> < of_int (\<lfloor>log 2 \<bar>x\<bar>\<rfloor> + 1)"
    by linarith
  also have "\<dots> \<le> of_int (expo x + 1)"
    using False by (simp add: expo_def)
  finally show ?thesis
    using pos by (simp add: log_less_iff)
qed

lemma expo_lower:
  assumes "2 powr (- 1022) \<le> \<bar>x\<bar>"
  shows "2 powr of_int (expo x) \<le> \<bar>x\<bar>"
proof -
  have "(0::real) < 2 powr (- 1022)" by simp
  with assms have pos: "0 < \<bar>x\<bar>" by linarith
  then have nz: "x \<noteq> 0" by auto
  have "- 1022 \<le> log 2 \<bar>x\<bar>"
    using assms pos by (simp add: le_log_iff)
  then have "- 1022 \<le> \<lfloor>log 2 \<bar>x\<bar>\<rfloor>"
    by (simp add: le_floor_iff)
  then have "expo x = \<lfloor>log 2 \<bar>x\<bar>\<rfloor>"
    using nz by (simp add: expo_def)
  then have "of_int (expo x) \<le> log 2 \<bar>x\<bar>"
    by simp
  then show ?thesis
    using pos by (simp add: le_log_iff)
qed

lemma expo_mono:
  assumes "\<bar>x\<bar> \<le> \<bar>y\<bar>"
  shows "expo x \<le> expo y"
proof (cases "x = 0")
  case True
  then show ?thesis by (simp add: expo_def)
next
  case False
  with assms have "y \<noteq> 0" by auto
  have "log 2 \<bar>x\<bar> \<le> log 2 \<bar>y\<bar>"
    using False assms by simp
  then have "\<lfloor>log 2 \<bar>x\<bar>\<rfloor> \<le> \<lfloor>log 2 \<bar>y\<bar>\<rfloor>"
    by (rule floor_mono)
  with False \<open>y \<noteq> 0\<close> show ?thesis
    by (simp add: expo_def)
qed

lemma ulp_pos [simp]: "0 < ulp x"
  by (simp add: ulp_def)

lemma ulp_nonneg [simp]: "0 \<le> ulp x"
  by (simp add: ulp_def)

lemma ulp_nz [simp]: "ulp x \<noteq> 0"
  by (simp add: ulp_def)

lemma ulp_minus [simp]: "ulp (- x) = ulp x"
  by (simp add: ulp_def)

lemma ulp_mono: "\<bar>x\<bar> \<le> \<bar>y\<bar> \<Longrightarrow> ulp x \<le> ulp y"
  using expo_mono [of x y] by (simp add: ulp_def)

lemma binade_ulp: "2 powr of_int (expo x + 1) = 2 ^ 53 * ulp x"
proof -
  have "2 powr of_int (expo x + 1) = (2::real) powr (53 + of_int (expo x - 52))"
    by (simp add: algebra_simps)
  also have "\<dots> = 2 powr 53 * 2 powr of_int (expo x - 52)"
    by (simp only: powr_add)
  finally show ?thesis
    by (simp add: ulp_def)
qed

lemma binade_ulp': "2 powr of_int (expo x) = 2 ^ 52 * ulp x"
proof -
  have "2 powr of_int (expo x) = (2::real) powr (52 + of_int (expo x - 52))"
    by simp
  also have "\<dots> = 2 powr 52 * 2 powr of_int (expo x - 52)"
    by (simp only: powr_add)
  finally show ?thesis
    by (simp add: ulp_def)
qed

lemma rnd64_minus: "rnd64 (- x) = - rnd64 x"
  by (simp add: rnd64_def rne_minus)

lemma rnd64_nonneg: "0 \<le> x \<Longrightarrow> 0 \<le> rnd64 x"
proof -
  assume "0 \<le> x"
  then have "of_int 0 \<le> x / ulp x"
    by simp
  then have "0 \<le> rne (x / ulp x)"
    by (rule rne_ge_int)
  then show ?thesis
    by (simp add: rnd64_def)
qed

lemma rnd64_nonpos: "x \<le> 0 \<Longrightarrow> rnd64 x \<le> 0"
  using rnd64_nonneg [of "- x"] by (simp add: rnd64_minus)

lemma rnd64_le_binade:
  assumes "0 \<le> x"
  shows "rnd64 x \<le> 2 powr of_int (expo x + 1)"
proof -
  have "x < 2 powr of_int (expo x + 1)"
    using expo_upper [of x] assms by simp
  then have "x < 2 ^ 53 * ulp x"
    by (simp only: binade_ulp)
  then have "x / ulp x \<le> of_int (2 ^ 53)"
    by (simp add: pos_divide_le_eq)
  then have "rne (x / ulp x) \<le> 2 ^ 53"
    by (rule rne_le_int)
  then have "of_int (rne (x / ulp x)) \<le> (2 ^ 53 :: real)"
    by (metis of_int_le_iff of_int_numeral of_int_power)
  then have "of_int (rne (x / ulp x)) * ulp x \<le> 2 ^ 53 * ulp x"
    by (intro mult_right_mono) simp_all
  then show ?thesis
    unfolding rnd64_def binade_ulp .
qed

lemma rnd64_ge_binade:
  assumes "2 powr of_int (expo x) \<le> x"
  shows "2 powr of_int (expo x) \<le> rnd64 x"
proof -
  have "2 ^ 52 * ulp x \<le> x"
    using assms by (simp add: binade_ulp')
  then have "of_int (2 ^ 52) \<le> x / ulp x"
    by (simp add: pos_le_divide_eq)
  then have "2 ^ 52 \<le> rne (x / ulp x)"
    by (rule rne_ge_int)
  then have "(2 ^ 52 :: real) \<le> of_int (rne (x / ulp x))"
    by (metis of_int_le_iff of_int_numeral of_int_power)
  then have "2 ^ 52 * ulp x \<le> of_int (rne (x / ulp x)) * ulp x"
    by (intro mult_right_mono) simp_all
  then show ?thesis
    unfolding rnd64_def binade_ulp' .
qed

lemma rnd64_mono_nonneg:
  assumes "0 \<le> x" and "x \<le> y"
  shows "rnd64 x \<le> rnd64 y"
proof (cases "expo x = expo y")
  case True
  then have u: "ulp x = ulp y"
    by (simp add: ulp_def)
  have "x / ulp y \<le> y / ulp y"
    using assms(2) by (simp add: divide_right_mono)
  then have "rne (x / ulp y) \<le> rne (y / ulp y)"
    by (rule rne_mono)
  then show ?thesis
    by (simp add: rnd64_def u)
next
  case False
  have "expo x \<le> expo y"
    using assms by (intro expo_mono) simp
  with False have lt: "expo x + 1 \<le> expo y"
    by simp
  then have "- 1022 < expo y"
    using expo_ge [of x] by linarith
  have "2 powr of_int (expo y) \<le> \<bar>y\<bar>"
  proof (rule expo_lower, rule ccontr)
    assume "\<not> 2 powr (- 1022) \<le> \<bar>y\<bar>"
    then have "expo y = - 1022"
      by (intro expo_subnormal) simp
    with \<open>- 1022 < expo y\<close> show False by simp
  qed
  then have "2 powr of_int (expo y) \<le> y"
    using assms by simp
  then have "2 powr of_int (expo y) \<le> rnd64 y"
    by (rule rnd64_ge_binade)
  moreover have "rnd64 x \<le> 2 powr of_int (expo x + 1)"
    using assms(1) by (rule rnd64_le_binade)
  moreover have "(2::real) powr of_int (expo x + 1) \<le> 2 powr of_int (expo y)"
    using lt by (simp del: of_int_add)
  ultimately show ?thesis
    by linarith
qed

lemma rnd64_mono:
  assumes "x \<le> y"
  shows "rnd64 x \<le> rnd64 y"
proof -
  consider "0 \<le> x" | "y \<le> 0" | "x < 0" "0 < y"
    by linarith
  then show ?thesis
  proof cases
    case 1
    then show ?thesis using assms by (rule rnd64_mono_nonneg)
  next
    case 2
    then have "rnd64 (- y) \<le> rnd64 (- x)"
      using assms by (intro rnd64_mono_nonneg) simp_all
    then show ?thesis
      by (simp add: rnd64_minus)
  next
    case 3
    then show ?thesis
      using rnd64_nonpos [of x] rnd64_nonneg [of y] by linarith
  qed
qed

lemma rnd64_err: "\<bar>rnd64 x - x\<bar> \<le> ulp x / 2"
proof -
  have "rnd64 x - x = (of_int (rne (x / ulp x)) - x / ulp x) * ulp x"
    using ulp_pos [of x] by (simp add: rnd64_def field_simps)
  then have "\<bar>rnd64 x - x\<bar> = \<bar>of_int (rne (x / ulp x)) - x / ulp x\<bar> * ulp x"
    by (simp add: abs_mult)
  also have "\<dots> \<le> 1 / 2 * ulp x"
    by (intro mult_right_mono rne_err) simp
  finally show ?thesis
    by simp
qed

lemma is_finite_simps [simp]:
  "is_finite a \<Longrightarrow> \<not> is_nan a" "is_finite a \<Longrightarrow> \<not> is_inf a"
  by (cases a; simp)+


lemma is_zero_val: "is_finite a \<Longrightarrow> is_zero a \<longleftrightarrow> val a = 0"
  by (cases a) simp_all

lemma fmul_finite:
  "is_finite a \<Longrightarrow> is_finite b \<Longrightarrow> fmul a b = round64 (sign a \<noteq> sign b) (val a * val b)"
  by (simp add: fmul_def)

lemma fadd_finite:
  "is_finite a \<Longrightarrow> is_finite b \<Longrightarrow> fadd a b = round64 (sign a \<and> sign b) (val a + val b)"
  by (simp add: fadd_def)

lemma fdiv_finite:
  "is_finite a \<Longrightarrow> is_finite b \<Longrightarrow> \<not> is_zero b \<Longrightarrow>
   fdiv a b = round64 (sign a \<noteq> sign b) (val a / val b)"
  by (simp add: fdiv_def)

lemma round64_finite:
  assumes "\<bar>rnd64 z\<bar> < 2 ^ 1024"
  shows "is_finite (round64 neg z)" and "val (round64 neg z) = rnd64 z"
  using assms by (auto simp add: round64_def Let_def)

lemma round64_nonzero:
  assumes "\<bar>rnd64 z\<bar> < 2 ^ 1024" and "rnd64 z \<noteq> 0"
  shows "round64 neg z = Fin (rnd64 z)"
  using assms by (auto simp add: round64_def Let_def)


lemma is_zero_fzero [simp]: "is_zero (fzero neg)"
  by (simp add: fzero_def)







lemma rnd64_powr2:
  assumes "- 1022 \<le> k"
  shows "rnd64 (2 powr of_int k) = 2 powr of_int k"
proof -
  have "rnd64 (2 powr of_int k) =
      of_int (rne (2 powr of_int k / 2 powr of_int (k - 52))) * 2 powr of_int (k - 52)"
    using assms by (intro rnd64_eval) simp_all
  also have "2 powr of_int k / 2 powr of_int (k - 52) = (2::real) powr 52"
    by (simp add: powr_diff [symmetric])
  also have "(2::real) powr 52 = of_int (2 ^ 52)"
    by simp
  also have "of_int (rne (of_int (2 ^ 52))) * 2 powr of_int (k - 52) =
      (2::real) powr 52 * 2 powr of_int (k - 52)"
    by (simp only: rne_of_int) simp
  also have "\<dots> = 2 powr (52 + of_int (k - 52))"
    by (simp only: powr_add)
  also have "\<dots> = 2 powr of_int k"
    by simp
  finally show ?thesis .
qed

lemma rnd64_pow2: "k \<le> 1023 \<Longrightarrow> rnd64 (2 ^ k) = 2 ^ k"
  using rnd64_powr2 [of "int k"] by (simp add: powr_realpow)

lemma rnd64_le_pow2: "x \<le> 2 ^ k \<Longrightarrow> k \<le> 1023 \<Longrightarrow> rnd64 x \<le> 2 ^ k"
  using rnd64_mono [of x "2 ^ k"] by (simp add: rnd64_pow2)



lemma ulp_le_normal:
  assumes "2 powr (- 1022) \<le> \<bar>y\<bar>"
  shows "ulp y \<le> 2 powr (- 52) * \<bar>y\<bar>"
proof -
  have "2 ^ 52 * ulp y \<le> \<bar>y\<bar>"
    using expo_lower [OF assms] by (simp only: binade_ulp')
  then have "ulp y \<le> \<bar>y\<bar> / 2 ^ 52"
    by (simp add: field_simps)
  also have "\<dots> = 2 powr (- 52) * \<bar>y\<bar>"
    by (simp add: powr_minus divide_simps)
  finally show ?thesis .
qed

lemma rnd64_rel:
  assumes "2 powr (- 1022) \<le> \<bar>y\<bar>"
  shows "\<bar>rnd64 y - y\<bar> \<le> 2 powr (- 53) * \<bar>y\<bar>"
proof -
  have "\<bar>rnd64 y - y\<bar> \<le> ulp y / 2"
    by (rule rnd64_err)
  also have "\<dots> \<le> 2 powr (- 52) * \<bar>y\<bar> / 2"
    using ulp_le_normal [OF assms] by simp
  also have "\<dots> = 2 powr (- 53) * \<bar>y\<bar>"
    by (simp add: powr_minus divide_simps)
  finally show ?thesis .
qed

text \<open>Rounding is idempotent: the result of every operation is representable.\<close>

lemma expo_lower':
  assumes "- 1022 < expo x"
  shows "2 powr of_int (expo x) \<le> \<bar>x\<bar>"
proof (rule expo_lower, rule ccontr)
  assume "\<not> 2 powr (- 1022) \<le> \<bar>x\<bar>"
  then have "expo x = - 1022"
    by (intro expo_subnormal) simp
  with assms show False by simp
qed

lemma rne_abs_le:
  assumes "\<bar>x\<bar> \<le> of_int n"
  shows "\<bar>rne x\<bar> \<le> n"
proof -
  have "rne x \<le> n"
    using assms by (intro rne_le_int) linarith
  moreover have "of_int (- n) \<le> x"
    using assms by simp
  then have "- n \<le> rne x"
    by (rule rne_ge_int)
  ultimately show ?thesis
    by linarith
qed

lemma rnd64_idem: "rnd64 (rnd64 x) = rnd64 x"
proof -
  define n where "n = rne (x / ulp x)"
  define y where "y = rnd64 x"
  have y: "y = of_int n * ulp x"
    by (simp add: y_def rnd64_def n_def)
  have ay: "\<bar>y\<bar> = of_int \<bar>n\<bar> * ulp x"
    by (simp add: y abs_mult)
  have "\<bar>x\<bar> < 2 ^ 53 * ulp x"
    using expo_upper [of x] by (simp only: binade_ulp)
  then have "\<bar>x / ulp x\<bar> \<le> of_int (2 ^ 53)"
    by (simp add: pos_divide_le_eq)
  then have n53: "\<bar>n\<bar> \<le> 2 ^ 53"
    unfolding n_def by (rule rne_abs_le)
  show ?thesis
  proof (cases "\<bar>n\<bar> = 2 ^ 53")
    case True
    then have "\<bar>y\<bar> = 2 ^ 53 * ulp x"
      by (simp add: ay)
    then have a: "\<bar>y\<bar> = 2 powr of_int (expo x + 1)"
      by (simp only: binade_ulp)
    have "rnd64 \<bar>y\<bar> = \<bar>y\<bar>"
      unfolding a using expo_ge [of x] by (intro rnd64_powr2) simp
    then have "rnd64 y = y"
      by (cases "0 \<le> y") (simp_all add: abs_if rnd64_minus)
    then show ?thesis
      by (simp only: y_def)
  next
    case False
    with n53 have lt: "\<bar>n\<bar> < 2 ^ 53"
      by simp
    then have "of_int \<bar>n\<bar> < (2 ^ 53 :: real)"
      by (metis of_int_less_iff of_int_numeral of_int_power)
    then have "of_int \<bar>n\<bar> * ulp x < 2 ^ 53 * ulp x"
      by (intro mult_strict_right_mono) simp_all
    then have up: "\<bar>y\<bar> < 2 powr of_int (expo x + 1)"
      by (simp only: ay binade_ulp)
    have e: "expo y = expo x"
    proof (cases "2 ^ 52 \<le> \<bar>n\<bar>")
      case True
      then have "(2 ^ 52 :: real) \<le> of_int \<bar>n\<bar>"
        by (metis of_int_le_iff of_int_numeral of_int_power)
      then have "2 ^ 52 * ulp x \<le> of_int \<bar>n\<bar> * ulp x"
        by (intro mult_right_mono) simp_all
      then have "2 powr of_int (expo x) \<le> \<bar>y\<bar>"
        by (simp only: ay binade_ulp')
      then show ?thesis
        using up expo_ge [of x] by (rule expo_eqI)
    next
      case small: False
      have sub: "expo x = - 1022"
      proof (rule ccontr)
        assume "expo x \<noteq> - 1022"
        with expo_ge [of x] have "- 1022 < expo x"
          by simp
        then have "2 powr of_int (expo x) \<le> \<bar>x\<bar>"
          by (rule expo_lower')
        then have "2 ^ 52 * ulp x \<le> \<bar>x\<bar>"
          by (simp only: binade_ulp')
        then have "of_int (2 ^ 52) \<le> \<bar>x\<bar> / ulp x"
          by (simp add: pos_le_divide_eq)
        then have "2 ^ 52 \<le> rne (\<bar>x\<bar> / ulp x)"
          by (rule rne_ge_int)
        moreover have "rne (\<bar>x\<bar> / ulp x) = \<bar>n\<bar>"
        proof (cases "0 \<le> x")
          case True
          then have "of_int 0 \<le> x / ulp x"
            by simp
          then have "0 \<le> n"
            unfolding n_def by (rule rne_ge_int)
          with True show ?thesis
            by (simp add: n_def)
        next
          case False
          then have "x / ulp x \<le> of_int 0"
            by (simp add: divide_le_0_iff)
          then have "n \<le> 0"
            unfolding n_def by (rule rne_le_int)
          moreover have "rne (- x / ulp x) = - n"
            using rne_minus [of "x / ulp x"] by (simp add: n_def)
          ultimately show ?thesis
            using False by simp
        qed
        ultimately show False
          using small by simp
      qed
      from small have "of_int \<bar>n\<bar> < (2 ^ 52 :: real)"
        by (metis not_le of_int_less_iff of_int_numeral of_int_power)
      then have "of_int \<bar>n\<bar> * ulp x < 2 ^ 52 * ulp x"
        by (intro mult_strict_right_mono) simp_all
      then have "\<bar>y\<bar> < 2 powr of_int (expo x)"
        by (simp only: ay binade_ulp')
      then have "\<bar>y\<bar> < 2 powr (- 1022)"
        by (simp add: sub)
      then have "expo y = - 1022"
        by (rule expo_subnormal)
      with sub show ?thesis
        by simp
    qed
    then have "ulp y = ulp x"
      by (simp add: ulp_def)
    then have "rnd64 y = of_int (rne (of_int n * ulp x / ulp x)) * ulp x"
      by (simp add: rnd64_def y)
    also have "\<dots> = y"
      by (simp add: y)
    finally show ?thesis
      by (simp only: y_def)
  qed
qed

lemma round64_is_float64: "is_float64 (round64 neg z)"
  by (auto simp add: round64_def Let_def rnd64_idem abs_less_iff not_le)

lemma fmul_is_float64: "is_float64 (fmul a b)"
  by (simp add: fmul_def finf_def round64_is_float64)

lemma fdiv_is_float64: "is_float64 (fdiv a b)"
  by (simp add: fdiv_def finf_def fzero_def round64_is_float64)

lemma fadd_is_float64: "is_float64 a \<Longrightarrow> is_float64 b \<Longrightarrow> is_float64 (fadd a b)"
  by (simp add: fadd_def round64_is_float64)

section \<open>The constants and the special values of calcAbsoluteHumidity\<close>

lemma round64_Fin:
  "rnd64 x = y \<Longrightarrow> y \<noteq> 0 \<Longrightarrow> \<bar>y\<bar> < 2 ^ 1024 \<Longrightarrow> round64 neg x = Fin y"
  by (auto simp add: round64_def)

lemma rnd64_6_112: "rnd64 6.112 = 3440750115311059 / 2 ^ 49"
proof -
  have "rnd64 6.112 = of_int (rne (6.112 / (1 / 2 ^ 50))) * (1 / 2 ^ 50)"
    by (rule rnd64_eval [where k = 2]) (simp_all add: powr_minus divide_simps)
  also have "\<dots> = 3440750115311059 / 2 ^ 49"
    by (simp add: rne_def)
  finally show ?thesis .
qed

lemma rnd64_17_67: "rnd64 17.67 = 1243415709619323 / 2 ^ 46"
proof -
  have "rnd64 17.67 = of_int (rne (17.67 / (1 / 2 ^ 48))) * (1 / 2 ^ 48)"
    by (rule rnd64_eval [where k = 4]) (simp_all add: powr_minus divide_simps)
  also have "\<dots> = 1243415709619323 / 2 ^ 46"
    by (simp add: rne_def)
  finally show ?thesis .
qed

lemma rnd64_243_5: "rnd64 243.5 = 243.5"
proof -
  have "rnd64 243.5 = of_int (rne (243.5 / (1 / 2 ^ 45))) * (1 / 2 ^ 45)"
    by (rule rnd64_eval [where k = 7]) (simp_all add: powr_minus divide_simps)
  also have "\<dots> = 243.5"
    by (simp add: rne_def)
  finally show ?thesis .
qed

lemma rnd64_2_1674: "rnd64 2.1674 = 4880550916181407 / 2 ^ 51"
proof -
  have "rnd64 2.1674 = of_int (rne (2.1674 / (1 / 2 ^ 51))) * (1 / 2 ^ 51)"
    by (rule rnd64_eval [where k = 1]) (simp_all add: powr_minus divide_simps)
  also have "\<dots> = 4880550916181407 / 2 ^ 51"
    by (simp add: rne_def)
  finally show ?thesis .
qed

lemma rnd64_273_15: "rnd64 273.15 = 2402652809016115 / 2 ^ 43"
proof -
  have "rnd64 273.15 = of_int (rne (273.15 / (1 / 2 ^ 44))) * (1 / 2 ^ 44)"
    by (rule rnd64_eval [where k = 8]) (simp_all add: powr_minus divide_simps)
  also have "\<dots> = 2402652809016115 / 2 ^ 43"
    by (simp add: rne_def)
  finally show ?thesis .
qed

lemma const64_6_112: "const64 6.112 = Fin (3440750115311059 / 2 ^ 49)"
  unfolding const64_def by (rule round64_Fin [OF rnd64_6_112]) simp_all

lemma const64_17_67: "const64 17.67 = Fin (1243415709619323 / 2 ^ 46)"
  unfolding const64_def by (rule round64_Fin [OF rnd64_17_67]) simp_all

lemma const64_243_5: "const64 243.5 = Fin 243.5"
  unfolding const64_def by (rule round64_Fin [OF rnd64_243_5]) simp_all

lemma const64_2_1674: "const64 2.1674 = Fin (4880550916181407 / 2 ^ 51)"
  unfolding const64_def by (rule round64_Fin [OF rnd64_2_1674]) simp_all

lemma const64_273_15: "const64 273.15 = Fin (2402652809016115 / 2 ^ 43)"
  unfolding const64_def by (rule round64_Fin [OF rnd64_273_15]) simp_all


lemmas const64_simps = const64_6_112 const64_17_67 const64_243_5 const64_2_1674 const64_273_15














section \<open>The instance of math.Exp\<close>

lemma exp_64_bounds:
  fixes x :: real
  assumes "x \<le> 64"
  shows "exp x \<le> 2 ^ 102"
proof -
  have "exp x \<le> exp (of_nat 64 * 1)"
    using assms by simp
  also have "\<dots> = exp 1 ^ 64"
    by (rule exp_of_nat_mult)
  also have "\<dots> \<le> 3 ^ 64"
    using exp_le by (intro power_mono) simp_all
  also have "\<dots> \<le> (2::real) ^ 102"
    by simp
  finally show ?thesis .
qed

lemma exp_m64_bounds:
  fixes x :: real
  assumes "- 64 \<le> x"
  shows "1 / 2 ^ 102 \<le> exp x"
proof -
  have "exp (- x) \<le> 2 ^ 102"
    using assms by (intro exp_64_bounds) simp
  then have "1 / exp x \<le> 2 ^ 102"
    by (simp add: exp_minus divide_inverse)
  then show ?thesis
    by (simp add: field_simps)
qed

lemma exp64_finite:
  assumes "is_finite a"
  shows "exp64 a = round64 False (exp (val a))"
  using assms by (cases a) (simp_all add: exp64_def)

lemma exp_spec_exp64: "exp_spec exp64"
  unfolding exp_spec_def
proof (intro conjI allI impI)
  show "exp64 NaN = NaN" "exp64 PInf = PInf" "exp64 NInf = Fin 0"
    by (simp_all add: exp64_def)
next
  fix a
  assume a: "is_finite a \<and> is_float64 a \<and> val a \<le> 64"
  define y where "y = rnd64 (exp (val a))"
  have "y \<le> 2 ^ 102"
    unfolding y_def using a by (intro rnd64_le_pow2 exp_64_bounds) simp_all
  then have hi: "y \<le> 2 ^ 1020"
    by (rule order_trans) simp
  have lo: "0 \<le> y"
    unfolding y_def by (intro rnd64_nonneg) simp
  have "exp64 a = Fin y"
    using a lo hi by (auto simp add: exp64_finite round64_def Let_def y_def [symmetric])
  with lo hi show "\<exists>y. exp64 a = Fin y \<and> 0 \<le> y \<and> y \<le> 2 ^ 1020"
    by blast
next
  fix a
  assume a: "is_finite a \<and> is_float64 a \<and> \<bar>val a\<bar> \<le> 64"
  define v where "v = exp (val a)"
  from a have r: "- 64 \<le> val a" "val a \<le> 64"
    by (simp_all add: abs_le_iff)
  have v: "1 / 2 ^ 102 \<le> v" "v \<le> 2 ^ 102"
    unfolding v_def using exp_m64_bounds [OF r(1)] exp_64_bounds [OF r(2)] by simp_all
  have "(2::real) powr (- 1022) \<le> 1 / 2 ^ 102"
    by (simp add: powr_minus divide_simps)
  with v have n: "2 powr (- 1022) \<le> \<bar>v\<bar>"
    by simp
  have "rnd64 v \<le> 2 ^ 102"
    using v by (intro rnd64_le_pow2) simp_all
  moreover have "0 \<le> rnd64 v"
    using v by (intro rnd64_nonneg) simp
  ultimately have "\<bar>rnd64 v\<bar> < 2 ^ 1024"
    by simp
  then have "val (exp64 a) = rnd64 v"
    using a by (simp add: exp64_finite v_def [symmetric] round64_finite)
  moreover have "\<bar>rnd64 v - v\<bar> \<le> 2 powr (- 53) * \<bar>v\<bar>"
    using n by (rule rnd64_rel)
  moreover have "2 powr (- 53) * \<bar>v\<bar> \<le> 2 powr (- 52) * v"
    using v by (simp add: powr_minus divide_simps)
  ultimately show "\<bar>val (exp64 a) - exp (val a)\<bar> \<le> 2 powr (- 52) * exp (val a)"
    unfolding v_def by linarith
qed

section \<open>Zero relative humidity\<close>








section \<open>The value at 25 degrees and 50 percent\<close>

lemma exp_taylor_lower:
  fixes x :: real
  assumes "0 \<le> x"
  shows "(\<Sum>m<n. x ^ m / fact m) \<le> exp x"
proof -
  obtain t where "exp x = (\<Sum>m<n. x ^ m / fact m) + exp t / fact n * x ^ n"
    using Maclaurin_exp_le [of x n] by blast
  moreover have "0 \<le> exp t / fact n * x ^ n"
    using assms by simp
  ultimately show ?thesis
    by linarith
qed

lemma exp_taylor_upper:
  fixes x :: real
  assumes "0 \<le> x" and "x \<le> 2"
  shows "exp x \<le> (\<Sum>m<n. x ^ m / fact m) + 9 * x ^ n / fact n"
proof -
  obtain t where t: "\<bar>t\<bar> \<le> \<bar>x\<bar>"
    and e: "exp x = (\<Sum>m<n. x ^ m / fact m) + exp t / fact n * x ^ n"
    using Maclaurin_exp_le [of x n] by blast
  from t assms have "t \<le> of_nat 2 * 1"
    by simp
  then have "exp t \<le> exp (of_nat 2 * 1)"
    by (simp only: exp_le_cancel_iff)
  also have "\<dots> = exp 1 ^ 2"
    by (rule exp_of_nat_mult)
  also have "\<dots> \<le> 3 ^ 2"
    using exp_le by (intro power_mono) simp_all
  finally have "exp t \<le> 9"
    by simp
  then have "exp t * (x ^ n / fact n) \<le> 9 * (x ^ n / fact n)"
    using assms by (intro mult_right_mono) simp_all
  then show ?thesis
    unfolding e by simp
qed

lemma taylor12:
  fixes x :: real
  shows "(\<Sum>m<12. x ^ m / fact m) =
    1 + x + x ^ 2 / 2 + x ^ 3 / 6 + x ^ 4 / 24 + x ^ 5 / 120 + x ^ 6 / 720 + x ^ 7 / 5040
      + x ^ 8 / 40320 + x ^ 9 / 362880 + x ^ 10 / 3628800 + x ^ 11 / 39916800"
  by (simp add: numeral_eq_Suc fact_reduce)

lemma exp_lo: "51823 / 10000 \<le> exp (6581 / 4000 :: real)"
proof -
  have "(51823 / 10000 :: real) \<le> (\<Sum>m<12. (6581 / 4000) ^ m / fact m)"
    unfolding taylor12 by (simp add: power_divide)
  also have "\<dots> \<le> exp (6581 / 4000)"
    by (rule exp_taylor_lower) simp
  finally show ?thesis .
qed

lemma exp_hi: "exp (1645252 / 1000000 :: real) \<le> 51824 / 10000"
proof -
  have "exp (1645252 / 1000000 :: real) \<le>
      (\<Sum>m<12. (1645252 / 1000000) ^ m / fact m) + 9 * (1645252 / 1000000) ^ 12 / fact 12"
    by (rule exp_taylor_upper) simp_all
  also have "\<dots> \<le> 51824 / 10000"
    unfolding taylor12 by (simp add: fact_numeral power_divide)
  finally show ?thesis .
qed

lemma rnd64_near:
  assumes "1 \<le> z" and "z \<le> 2 ^ 20"
  shows "\<bar>rnd64 z - z\<bar> \<le> 1 / 2 ^ 30"
proof -
  have "(2::real) powr (- 1022) \<le> 1"
    by (simp add: powr_minus divide_simps)
  with assms(1) have "2 powr (- 1022) \<le> \<bar>z\<bar>"
    by simp
  then have "\<bar>rnd64 z - z\<bar> \<le> 2 powr (- 53) * \<bar>z\<bar>"
    by (rule rnd64_rel)
  also have "\<dots> \<le> 2 powr (- 53) * 2 ^ 20"
    using assms by (intro mult_left_mono) simp_all
  also have "\<dots> \<le> 1 / 2 ^ 30"
    by (simp add: powr_minus divide_simps)
  finally show ?thesis .
qed

lemma round64_near:
  assumes "1 \<le> z" and "z \<le> 2 ^ 20"
  shows "round64 neg z = Fin (rnd64 z)"
proof (rule round64_nonzero)
  have n: "\<bar>rnd64 z - z\<bar> \<le> 1 / 2 ^ 30"
    using assms by (rule rnd64_near)
  have "rnd64 z \<le> 2 ^ 20"
    using assms(2) by (rule rnd64_le_pow2) simp
  moreover have "0 \<le> rnd64 z"
    using assms(1) by (intro rnd64_nonneg) simp
  ultimately show "\<bar>rnd64 z\<bar> < 2 ^ 1024"
    by simp
  have "(1 / 2 ^ 30 :: real) < 1"
    by simp
  with n assms(1) show "rnd64 z \<noteq> 0"
    by linarith
qed

lemma fmul_pos: "0 < x \<Longrightarrow> 0 < y \<Longrightarrow> fmul (Fin x) (Fin y) = round64 False (x * y)"
  by (simp add: fmul_finite)

lemma fdiv_pos: "0 < x \<Longrightarrow> 0 < y \<Longrightarrow> fdiv (Fin x) (Fin y) = round64 False (x / y)"
  by (simp add: fdiv_finite)

lemma fadd_pos: "0 < x \<Longrightarrow> 0 < y \<Longrightarrow> fadd (Fin x) (Fin y) = round64 False (x + y)"
  by (simp add: fadd_finite)

lemma step_a: "fmul (const64 17.67) (Fin 25) = Fin (7771348185120769 / 2 ^ 44)"
proof -
  have "rnd64 (1243415709619323 / 2 ^ 46 * 25) =
      of_int (rne (1243415709619323 / 2 ^ 46 * 25 / (1 / 2 ^ 44))) * (1 / 2 ^ 44)"
    by (rule rnd64_eval [where k = 8]) (simp_all add: powr_minus divide_simps)
  also have "\<dots> = 7771348185120769 / 2 ^ 44"
    by (simp add: rne_def)
  finally have "round64 False (1243415709619323 / 2 ^ 46 * 25) = Fin (7771348185120769 / 2 ^ 44)"
    by (rule round64_Fin) simp_all
  then show ?thesis
    unfolding const64_17_67 by (subst fmul_pos) simp_all
qed

lemma step_b: "fadd (Fin 25) (const64 243.5) = Fin 268.5"
proof -
  have "rnd64 (25 + 243.5) = of_int (rne ((25 + 243.5) / (1 / 2 ^ 44))) * (1 / 2 ^ 44)"
    by (rule rnd64_eval [where k = 8]) (simp_all add: powr_minus divide_simps)
  also have "\<dots> = 268.5"
    by (simp add: rne_def)
  finally have "round64 False (25 + 243.5) = Fin 268.5"
    by (rule round64_Fin) simp_all
  then show ?thesis
    unfolding const64_243_5 by (subst fadd_pos) simp_all
qed

lemma step_q:
  "fdiv (Fin (7771348185120769 / 2 ^ 44)) (Fin 268.5) = Fin (7409553576874923 / 2 ^ 52)"
proof -
  have "rnd64 (7771348185120769 / 2 ^ 44 / 268.5) =
      of_int (rne (7771348185120769 / 2 ^ 44 / 268.5 / (1 / 2 ^ 52))) * (1 / 2 ^ 52)"
    by (rule rnd64_eval [where k = 0]) (simp_all add: powr_minus divide_simps)
  also have "\<dots> = 7409553576874923 / 2 ^ 52"
    by (simp add: rne_def)
  finally have "round64 False (7771348185120769 / 2 ^ 44 / 268.5) =
      Fin (7409553576874923 / 2 ^ 52)"
    by (rule round64_Fin) simp_all
  then show ?thesis
    by (subst fdiv_pos) simp_all
qed

lemma step_d: "fadd (const64 273.15) (Fin 25) = Fin (2622555134571315 / 2 ^ 43)"
proof -
  have "rnd64 (2402652809016115 / 2 ^ 43 + 25) =
      of_int (rne ((2402652809016115 / 2 ^ 43 + 25) / (1 / 2 ^ 44))) * (1 / 2 ^ 44)"
    by (rule rnd64_eval [where k = 8]) (simp_all add: powr_minus divide_simps)
  also have "\<dots> = 2622555134571315 / 2 ^ 43"
    by (simp add: rne_def)
  finally have "round64 False (2402652809016115 / 2 ^ 43 + 25) =
      Fin (2622555134571315 / 2 ^ 43)"
    by (rule round64_Fin) simp_all
  then show ?thesis
    unfolding const64_273_15 by (subst fadd_pos) simp_all
qed

lemma round64_step:
  assumes "lo \<le> z" and "z \<le> hi" and "1 \<le> lo" and "hi \<le> 2 ^ 20"
  shows "\<exists>m. round64 neg z = Fin m \<and> lo - 1 / 2 ^ 30 \<le> m \<and> m \<le> hi + 1 / 2 ^ 30"
proof -
  have z: "1 \<le> z" "z \<le> 2 ^ 20"
    using assms by linarith+
  have "round64 neg z = Fin (rnd64 z)"
    using z by (rule round64_near)
  moreover have "\<bar>rnd64 z - z\<bar> \<le> 1 / 2 ^ 30"
    using z by (rule rnd64_near)
  then have "lo - 1 / 2 ^ 30 \<le> rnd64 z" "rnd64 z \<le> hi + 1 / 2 ^ 30"
    using assms(1,2) by linarith+
  ultimately show ?thesis
    by blast
qed

lemma fmul_step:
  assumes "0 < x" and "0 < y" and "lo \<le> x * y" and "x * y \<le> hi" and "1 \<le> lo"
    and "hi \<le> 2 ^ 20"
  shows "\<exists>m. fmul (Fin x) (Fin y) = Fin m \<and> lo - 1 / 2 ^ 30 \<le> m \<and> m \<le> hi + 1 / 2 ^ 30"
  unfolding fmul_pos [OF assms(1,2)] using assms(3-6) by (rule round64_step)

lemma fdiv_step:
  assumes "0 < x" and "0 < y" and "lo \<le> x / y" and "x / y \<le> hi" and "1 \<le> lo"
    and "hi \<le> 2 ^ 20"
  shows "\<exists>m. fdiv (Fin x) (Fin y) = Fin m \<and> lo - 1 / 2 ^ 30 \<le> m \<and> m \<le> hi + 1 / 2 ^ 30"
  unfolding fdiv_pos [OF assms(1,2)] using assms(3-6) by (rule round64_step)

lemma calc_25_50:
  assumes spec: "exp_spec mexp"
  shows "\<exists>r. calcAbsoluteHumidity mexp (Fin 25) (Fin 50) = Fin r \<and> \<bar>r - 11.51\<bar> \<le> 1 / 100"
proof -
  define q0 :: real where "q0 = 7409553576874923 / 2 ^ 52"
  have q0: "6581 / 4000 \<le> q0" "q0 \<le> 1645252 / 1000000"
    by (simp_all add: q0_def)
  have q: "fdiv (fmul (const64 17.67) (Fin 25)) (fadd (Fin 25) (const64 243.5)) = Fin q0"
    unfolding step_a step_b q0_def by (rule step_q)
  have "is_float64 (Fin q0)"
    using fdiv_is_float64 [of "fmul (const64 17.67) (Fin 25)" "fadd (Fin 25) (const64 243.5)"]
    by (simp only: q)
  then have fin: "is_finite (Fin q0) \<and> is_float64 (Fin q0) \<and> val (Fin q0) \<le> 64"
    "is_finite (Fin q0) \<and> is_float64 (Fin q0) \<and> \<bar>val (Fin q0)\<bar> \<le> 64"
    using q0 by simp_all
  from spec fin(1) obtain y where y: "mexp (Fin q0) = Fin y"
    unfolding exp_spec_def by blast
  from spec fin(2) have "\<bar>val (mexp (Fin q0)) - exp (val (Fin q0))\<bar> \<le> 2 powr (- 52) * exp (val (Fin q0))"
    unfolding exp_spec_def by blast
  then have acc: "\<bar>y - exp q0\<bar> \<le> 2 powr (- 52) * exp q0"
    by (simp add: y)
  have "exp (6581 / 4000) \<le> exp q0" "exp q0 \<le> exp (1645252 / 1000000)"
    using q0 by simp_all
  then have e: "51823 / 10000 \<le> exp q0" "exp q0 \<le> 51824 / 10000"
    using exp_lo exp_hi by linarith+
  have "(2::real) powr (- 52) \<le> 1 / 100000"
    by (simp add: powr_minus divide_simps)
  then have "2 powr (- 52) * exp q0 \<le> 1 / 100000 * exp q0"
    by (intro mult_right_mono) simp_all
  with acc e have yb: "51822 / 10000 \<le> y" "y \<le> 51825 / 10000"
    by linarith+
  (* 6.112 * exp *)
  have "\<exists>m. fmul (Fin (3440750115311059 / 2 ^ 49)) (Fin y) = Fin m \<and>
      316736 / 10000 - 1 / 2 ^ 30 \<le> m \<and> m \<le> 316755 / 10000 + 1 / 2 ^ 30"
    using yb by (intro fmul_step) simp_all
  then obtain m1 where s1: "fmul (const64 6.112) (Fin y) = Fin m1"
    and m1: "31673 / 1000 \<le> m1" "m1 \<le> 31676 / 1000"
    unfolding const64_6_112 [symmetric] by auto
  (* * rh *)
  have "\<exists>m. fmul (Fin m1) (Fin 50) = Fin m \<and>
      158365 / 100 - 1 / 2 ^ 30 \<le> m \<and> m \<le> 158380 / 100 + 1 / 2 ^ 30"
    using m1 by (intro fmul_step) simp_all
  then obtain m2 where s2: "fmul (Fin m1) (Fin 50) = Fin m2"
    and m2: "158364 / 100 \<le> m2" "m2 \<le> 158381 / 100"
    by auto
  (* * 2.1674 *)
  have "\<exists>m. fmul (Fin m2) (Fin (4880550916181407 / 2 ^ 51)) = Fin m \<and>
      343231 / 100 - 1 / 2 ^ 30 \<le> m \<and> m \<le> 343279 / 100 + 1 / 2 ^ 30"
    using m2 by (intro fmul_step) simp_all
  then obtain m3 where s3: "fmul (Fin m2) (const64 2.1674) = Fin m3"
    and m3: "34323 / 10 \<le> m3" "m3 \<le> 34328 / 10"
    unfolding const64_2_1674 [symmetric] by auto
  (* / (273.15 + t) *)
  have "\<exists>m. fdiv (Fin m3) (Fin (2622555134571315 / 2 ^ 43)) = Fin m \<and>
      11511 / 1000 - 1 / 2 ^ 30 \<le> m \<and> m \<le> 11514 / 1000 + 1 / 2 ^ 30"
    using m3 by (intro fdiv_step) (simp_all add: field_simps)
  then obtain r where s4: "fdiv (Fin m3) (Fin (2622555134571315 / 2 ^ 43)) = Fin r"
    and r: "\<bar>r - 11.51\<bar> \<le> 1 / 100"
    by (auto simp add: abs_le_iff)
  have "calcAbsoluteHumidity mexp (Fin 25) (Fin 50) = Fin r"
    unfolding calcAbsoluteHumidity_def q y s1 s2 s3 step_d s4 ..
  with r show ?thesis
    by blast
qed

section \<open>The events and the gauges of one cycle\<close>

lemmas block_defs = update_bme280_def update_sht2x_def update_tsl2561_def sensor_read_def
  gauge_set_def log_printf_def Let_def

lemma trace_update_bme280:
  "trace (update_bme280 mexp bme s) = trace s @ bme280_events mexp bme"
  by (simp add: bme280_events_def block_defs split: option.splits sum.splits)

lemma trace_update_sht2x:
  "trace (update_sht2x mexp sht s) = trace s @ sht2x_events mexp sht"
  by (simp add: sht2x_events_def block_defs split: option.splits sum.splits)

lemma trace_update_tsl2561:
  "trace (update_tsl2561 tsl s) = trace s @ tsl2561_events tsl"
  by (simp add: tsl2561_events_def block_defs split: option.splits sum.splits prod.splits)

lemma cycle_events_eq:
  "cycle_events mexp bme sht tsl s =
     bme280_events mexp bme @ sht2x_events mexp sht @ tsl2561_events tsl"
  by (simp add: cycle_events_def updateSensors_def trace_update_bme280 trace_update_sht2x
      trace_update_tsl2561)

lemma trace_updateSensors:
  "trace (updateSensors mexp bme sht tsl s) = trace s @ cycle_events mexp bme sht tsl s"
  by (simp add: cycle_events_eq updateSensors_def trace_update_bme280 trace_update_sht2x
      trace_update_tsl2561)

text \<open>Writes and reads of each block, by device.\<close>

lemma bme280_events_writes:
  "writes_for dev (bme280_events mexp bme) =
     (if dev = ''bme280'' then
        (case bme of None \<Rightarrow> []
         | Some d \<Rightarrow>
           (case (bme_Temperature d, bme_Pressure d, bme_Humidity d) of
              (Inr t, Inr p, Inr h) \<Rightarrow>
                [GaugeSet ''sensor_temperature_celsius'' [''bme280'', ''indoor'']
                   (float64_of_float32 t),
                 GaugeSet ''sensor_pressure_hpa'' [''bme280'', ''indoor'']
                   (fdiv (float64_of_float32 p) (const64 100)),
                 GaugeSet ''sensor_humidity_percent'' [''bme280'', ''indoor'']
                   (float64_of_float32 h),
                 GaugeSet ''sensor_absolute_humidity_g_m3'' [''bme280'', ''indoor'']
                   (calcAbsoluteHumidity mexp (float64_of_float32 t) (float64_of_float32 h))]
            | _ \<Rightarrow> []))
      else [])"
  by (simp add: bme280_events_def writes_for_def block_defs split: option.splits sum.splits)

lemma sht2x_events_writes:
  "writes_for dev (sht2x_events mexp sht) =
     (if dev = ''sht2x'' then
        (case sht of None \<Rightarrow> []
         | Some d \<Rightarrow>
           (case (sht_Temperature d, sht_Humidity d) of
              (Inr t, Inr h) \<Rightarrow>
                [GaugeSet ''sensor_temperature_celsius'' [''sht2x'', ''indoor'']
                   (float64_of_float32 t),
                 GaugeSet ''sensor_humidity_percent'' [''sht2x'', ''indoor'']
                   (float64_of_float32 h),
                 GaugeSet ''sensor_absolute_humidity_g_m3'' [''sht2x'', ''indoor'']
                   (calcAbsoluteHumidity mexp (float64_of_float32 t) (float64_of_float32 h))]
            | _ \<Rightarrow> []))
      else [])"
  by (simp add: sht2x_events_def writes_for_def block_defs split: option.splits sum.splits)

lemma tsl2561_events_writes:
  "writes_for dev (tsl2561_events tsl) =
     (if dev = ''tsl2561'' then
        (case tsl of None \<Rightarrow> []
         | Some d \<Rightarrow>
           (case GetLuminocity d of
              Inr (bb, ir) \<Rightarrow>
                [GaugeSet ''sensor_illuminance_lux'' [''tsl2561'', ''indoor'']
                   (float64_of_uint32 (CalculateLux d bb ir)),
                 GaugeSet ''sensor_light_raw'' [''tsl2561'', ''indoor'', ''broadband'']
                   (float64_of_uint16 bb),
                 GaugeSet ''sensor_light_raw'' [''tsl2561'', ''indoor'', ''infrared'']
                   (float64_of_uint16 ir)]
            | Inl err \<Rightarrow> []))
      else [])"
  by (simp add: tsl2561_events_def writes_for_def block_defs
      split: option.splits sum.splits prod.splits)

lemma writes_for_append: "writes_for dev (xs @ ys) = writes_for dev xs @ writes_for dev ys"
  by (simp add: writes_for_def)

lemma reads_for_append: "reads_for dev (xs @ ys) = reads_for dev xs @ reads_for dev ys"
  by (simp add: reads_for_def)

lemma bme280_events_reads:
  "reads_for dev (bme280_events mexp bme) =
     (if dev = ''bme280'' \<and> bme \<noteq> None then
        [SensorRead ''bme280'' ''Temperature'', SensorRead ''bme280'' ''Pressure'',
         SensorRead ''bme280'' ''Humidity'']
      else [])"
  by (simp add: bme280_events_def reads_for_def block_defs split: option.splits sum.splits)

lemma sht2x_events_reads:
  "reads_for dev (sht2x_events mexp sht) =
     (if dev = ''sht2x'' \<and> sht \<noteq> None then
        [SensorRead ''sht2x'' ''Temperature'', SensorRead ''sht2x'' ''Humidity'']
      else [])"
  by (simp add: sht2x_events_def reads_for_def block_defs split: option.splits sum.splits)

lemma tsl2561_events_reads:
  "reads_for dev (tsl2561_events tsl) =
     (if dev = ''tsl2561'' \<and> tsl \<noteq> None then [SensorRead ''tsl2561'' ''GetLuminocity''] else [])"
  by (simp add: tsl2561_events_def reads_for_def block_defs
      split: option.splits sum.splits prod.splits)

text \<open>The gauges after each block.\<close>

lemma gauges_update_bme280:
  "gauges (update_bme280 mexp bme s) =
     (case bme of None \<Rightarrow> gauges s
      | Some d \<Rightarrow>
        (case (bme_Temperature d, bme_Pressure d, bme_Humidity d) of
           (Inr t, Inr p, Inr h) \<Rightarrow>
             (gauges s)
               ((''sensor_temperature_celsius'', [''bme280'', ''indoor'']) \<mapsto> float64_of_float32 t,
                (''sensor_pressure_hpa'', [''bme280'', ''indoor'']) \<mapsto>
                   fdiv (float64_of_float32 p) (const64 100),
                (''sensor_humidity_percent'', [''bme280'', ''indoor'']) \<mapsto> float64_of_float32 h,
                (''sensor_absolute_humidity_g_m3'', [''bme280'', ''indoor'']) \<mapsto>
                   calcAbsoluteHumidity mexp (float64_of_float32 t) (float64_of_float32 h))
         | _ \<Rightarrow> gauges s))"
  by (simp add: block_defs split: option.splits sum.splits)

lemma gauges_update_sht2x:
  "gauges (update_sht2x mexp sht s) =
     (case sht of None \<Rightarrow> gauges s
      | Some d \<Rightarrow>
        (case (sht_Temperature d, sht_Humidity d) of
           (Inr t, Inr h) \<Rightarrow>
             (gauges s)
               ((''sensor_temperature_celsius'', [''sht2x'', ''indoor'']) \<mapsto> float64_of_float32 t,
                (''sensor_humidity_percent'', [''sht2x'', ''indoor'']) \<mapsto> float64_of_float32 h,
                (''sensor_absolute_humidity_g_m3'', [''sht2x'', ''indoor'']) \<mapsto>
                   calcAbsoluteHumidity mexp (float64_of_float32 t) (float64_of_float32 h))
         | _ \<Rightarrow> gauges s))"
  by (simp add: block_defs split: option.splits sum.splits)

lemma gauges_update_tsl2561:
  "gauges (update_tsl2561 tsl s) =
     (case tsl of None \<Rightarrow> gauges s
      | Some d \<Rightarrow>
        (case GetLuminocity d of
           Inr (bb, ir) \<Rightarrow>
             (gauges s)
               ((''sensor_illuminance_lux'', [''tsl2561'', ''indoor'']) \<mapsto>
                   float64_of_uint32 (CalculateLux d bb ir),
                (''sensor_light_raw'', [''tsl2561'', ''indoor'', ''broadband'']) \<mapsto>
                   float64_of_uint16 bb,
                (''sensor_light_raw'', [''tsl2561'', ''indoor'', ''infrared'']) \<mapsto>
                   float64_of_uint16 ir)
         | Inl err \<Rightarrow> gauges s))"
  by (simp add: block_defs split: option.splits sum.splits prod.splits)

lemma cycle_writes:
  "writes_for dev (cycle_events mexp bme sht tsl s) =
     writes_for dev (bme280_events mexp bme) @ writes_for dev (sht2x_events mexp sht) @
     writes_for dev (tsl2561_events tsl)"
  by (simp add: cycle_events_eq writes_for_append)

lemma cycle_reads:
  "reads_for dev (cycle_events mexp bme sht tsl s) =
     reads_for dev (bme280_events mexp bme) @ reads_for dev (sht2x_events mexp sht) @
     reads_for dev (tsl2561_events tsl)"
  by (simp add: cycle_events_eq reads_for_append)

lemma gauges_other_bme280:
  "d \<noteq> ''bme280'' \<Longrightarrow>
   gauges (update_bme280 mexp bme s) (name, d # lvs) = gauges s (name, d # lvs)"
  by (simp add: gauges_update_bme280 split: option.splits sum.splits)

lemma gauges_other_sht2x:
  "d \<noteq> ''sht2x'' \<Longrightarrow>
   gauges (update_sht2x mexp sht s) (name, d # lvs) = gauges s (name, d # lvs)"
  by (simp add: gauges_update_sht2x split: option.splits sum.splits)

lemma gauges_other_tsl2561:
  "d \<noteq> ''tsl2561'' \<Longrightarrow>
   gauges (update_tsl2561 tsl s) (name, d # lvs) = gauges s (name, d # lvs)"
  by (simp add: gauges_update_tsl2561 split: option.splits sum.splits prod.splits)

lemma gauges_bme280_failed:
  "bme = None \<or> (\<exists>d. bme = Some d \<and> (isl (bme_Temperature d) \<or> isl (bme_Pressure d) \<or> isl (bme_Humidity d))) \<Longrightarrow>
   gauges (update_bme280 mexp bme s) = gauges s"
  by (auto simp add: gauges_update_bme280 split: option.splits sum.splits)

lemma gauges_sht2x_failed:
  "sht = None \<or> (\<exists>d. sht = Some d \<and> (isl (sht_Temperature d) \<or> isl (sht_Humidity d))) \<Longrightarrow>
   gauges (update_sht2x mexp sht s) = gauges s"
  by (auto simp add: gauges_update_sht2x split: option.splits sum.splits)

lemma gauges_tsl2561_failed:
  "tsl = None \<or> (\<exists>d. tsl = Some d \<and> isl (GetLuminocity d)) \<Longrightarrow>
   gauges (update_tsl2561 tsl s) = gauges s"
  by (auto simp add: gauges_update_tsl2561 split: option.splits sum.splits)

lemma update_None [simp]:
  "update_bme280 mexp None s = s" "update_sht2x mexp None s = s" "update_tsl2561 None s = s"
  by (simp_all add: update_bme280_def update_sht2x_def update_tsl2561_def)

lemma sht_key: "gauges u k = gauges u' k \<Longrightarrow>
  gauges (update_sht2x mexp sht u) k = gauges (update_sht2x mexp sht u') k"
  by (simp add: gauges_update_sht2x split: option.split sum.split)

lemma bme_key: "gauges u k = gauges u' k \<Longrightarrow>
  gauges (update_bme280 mexp bme u) k = gauges (update_bme280 mexp bme u') k"
  by (simp add: gauges_update_bme280 split: option.split sum.split)

lemma tsl_key: "gauges u k = gauges u' k \<Longrightarrow>
  gauges (update_tsl2561 tsl u) k = gauges (update_tsl2561 tsl u') k"
  by (simp add: gauges_update_tsl2561 split: option.split sum.split prod.split)

text \<open>The keys written.\<close>

lemma write_keys_append: "write_keys (xs @ ys) = write_keys xs @ write_keys ys"
  by (induction xs rule: write_keys.induct) simp_all

lemma bme280_events_keys: "set (write_keys (bme280_events mexp bme)) \<subseteq> gauge_keys"
  by (simp add: bme280_events_def gauge_keys_def block_defs split: option.splits sum.splits)

lemma sht2x_events_keys: "set (write_keys (sht2x_events mexp sht)) \<subseteq> gauge_keys"
  by (simp add: sht2x_events_def gauge_keys_def block_defs split: option.splits sum.splits)

lemma tsl2561_events_keys: "set (write_keys (tsl2561_events tsl)) \<subseteq> gauge_keys"
  by (simp add: tsl2561_events_def gauge_keys_def block_defs
      split: option.splits sum.splits prod.splits)

lemma cycle_events_keys:
  "set (write_keys (cycle_events mexp bme sht tsl s)) \<subseteq> gauge_keys"
  using bme280_events_keys [of mexp bme] sht2x_events_keys [of mexp sht]
    tsl2561_events_keys [of tsl]
  by (simp add: cycle_events_eq write_keys_append)

lemma poll_cycles_keys:
  "set (write_keys (trace (poll_cycles mexp bme sht tsl n s))) \<subseteq>
     set (write_keys (trace s)) \<union> gauge_keys"
proof (induction n)
  case 0
  then show ?case by simp
next
  case (Suc n)
  then show ?case
    using cycle_events_keys
    by (simp add: trace_updateSensors write_keys_append le_supI1 le_supI2)
qed

section \<open>The polling loop\<close>

lemma main_cycles_Inr:
  assumes "main_cycles mexp hw n = Inr s"
  shows "\<exists>s3. s = poll_cycles mexp
           (if bme_start hw = None then Some (bme_dev hw) else None)
           (if sht_start hw = None then Some (sht_dev hw) else None)
           (if tsl_start hw = None then Some (tsl_dev hw) else None) n s3
         \<and> gauges s3 = Map.empty \<and> write_keys (trace s3) = []
         \<and> (\<forall>dev. reads_for dev (trace s3) = [] \<and> writes_for dev (trace s3) = [])"
  using assms
  by (auto simp add: main_cycles_def log_printf_def reads_for_def writes_for_def
      split: option.splits)

lemma gauges_poll_cycles_absent:
  "(d = ''bme280'' \<and> bme = None) \<or> (d = ''sht2x'' \<and> sht = None) \<or> (d = ''tsl2561'' \<and> tsl = None) \<Longrightarrow>
   gauges (poll_cycles mexp bme sht tsl n s) (name, d # lvs) = gauges s (name, d # lvs)"
proof (induction n)
  case 0
  then show ?case by simp
next
  case (Suc n)
  from Suc.prems consider "d = ''bme280''" "bme = None" | "d = ''sht2x''" "sht = None"
    | "d = ''tsl2561''" "tsl = None"
    by blast
  then show ?case
  proof cases
    case 1
    with Suc.IH show ?thesis
      by (simp add: updateSensors_def gauges_other_sht2x gauges_other_tsl2561)
  next
    case 2
    with Suc.IH show ?thesis
      by (simp add: updateSensors_def gauges_other_bme280 gauges_other_tsl2561)
  next
    case 3
    with Suc.IH show ?thesis
      by (simp add: updateSensors_def gauges_other_bme280 gauges_other_sht2x)
  qed
qed

lemma reads_poll_cycles_absent:
  "(d = ''bme280'' \<and> bme = None) \<or> (d = ''sht2x'' \<and> sht = None) \<or> (d = ''tsl2561'' \<and> tsl = None) \<Longrightarrow>
   reads_for d (trace (poll_cycles mexp bme sht tsl n s)) = reads_for d (trace s)"
  by (induction n)
    (auto simp add: trace_updateSensors reads_for_append cycle_reads bme280_events_reads
      sht2x_events_reads tsl2561_events_reads)

lemma writes_poll_cycles_absent:
  "(d = ''bme280'' \<and> bme = None) \<or> (d = ''sht2x'' \<and> sht = None) \<or> (d = ''tsl2561'' \<and> tsl = None) \<Longrightarrow>
   writes_for d (trace (poll_cycles mexp bme sht tsl n s)) = writes_for d (trace s)"
  by (induction n)
    (auto simp add: trace_updateSensors writes_for_append cycle_writes bme280_events_writes
      sht2x_events_writes tsl2561_events_writes)

lemma main_cycles_example:
  "main_cycles exp64 example_hardware n =
     Inr (poll_cycles exp64 (Some (\<lambda>n. example_bme)) None (Some (\<lambda>n. example_tsl)) n
       \<lparr>gauges = Map.empty,
        trace = [LogPrintf ''Initializing sensors...'' [],
                 LogPrintf (warning_sign @ '' SHT2x init failed: %v'') [Some ''i2c: no device'']]\<rparr>)"
  by (simp add: main_cycles_def example_hardware_def log_printf_def)

section \<open>The claims about the polling cycle\<close>

text \<open>
  C1. A source's series are updated all or nothing in a cycle. When every read of a
  present source succeeds, the \<open>Set\<close> calls of the cycle for that device are exactly its
  series, each once, with the raw and derived values; when a read fails, the cycle makes
  no \<open>Set\<close> call for that device and every gauge of the device keeps its value.
\<close>

theorem updateSensors_all_or_nothing:
  fixes s :: state and mexp bme sht tsl
  defines "s' \<equiv> updateSensors mexp bme sht tsl s"
  defines "evs \<equiv> cycle_events mexp bme sht tsl s"
  shows
   "(bme = Some b \<and> bme_Temperature b = Inr t \<and> bme_Pressure b = Inr p \<and> bme_Humidity b = Inr h \<longrightarrow>
       writes_for ''bme280'' evs =
         [GaugeSet ''sensor_temperature_celsius'' [''bme280'', ''indoor''] (float64_of_float32 t),
          GaugeSet ''sensor_pressure_hpa'' [''bme280'', ''indoor'']
            (fdiv (float64_of_float32 p) (const64 100)),
          GaugeSet ''sensor_humidity_percent'' [''bme280'', ''indoor''] (float64_of_float32 h),
          GaugeSet ''sensor_absolute_humidity_g_m3'' [''bme280'', ''indoor'']
            (calcAbsoluteHumidity mexp (float64_of_float32 t) (float64_of_float32 h))])
    \<and> (bme = Some b \<and> (isl (bme_Temperature b) \<or> isl (bme_Pressure b) \<or> isl (bme_Humidity b)) \<longrightarrow>
       writes_for ''bme280'' evs = [] \<and>
       (\<forall>name lvs. gauges s' (name, ''bme280'' # lvs) = gauges s (name, ''bme280'' # lvs)))
    \<and> (sht = Some c \<and> sht_Temperature c = Inr t' \<and> sht_Humidity c = Inr h' \<longrightarrow>
       writes_for ''sht2x'' evs =
         [GaugeSet ''sensor_temperature_celsius'' [''sht2x'', ''indoor''] (float64_of_float32 t'),
          GaugeSet ''sensor_humidity_percent'' [''sht2x'', ''indoor''] (float64_of_float32 h'),
          GaugeSet ''sensor_absolute_humidity_g_m3'' [''sht2x'', ''indoor'']
            (calcAbsoluteHumidity mexp (float64_of_float32 t') (float64_of_float32 h'))])
    \<and> (sht = Some c \<and> (isl (sht_Temperature c) \<or> isl (sht_Humidity c)) \<longrightarrow>
       writes_for ''sht2x'' evs = [] \<and>
       (\<forall>name lvs. gauges s' (name, ''sht2x'' # lvs) = gauges s (name, ''sht2x'' # lvs)))
    \<and> (tsl = Some l \<and> GetLuminocity l = Inr (bb, ir) \<longrightarrow>
       writes_for ''tsl2561'' evs =
         [GaugeSet ''sensor_illuminance_lux'' [''tsl2561'', ''indoor'']
            (float64_of_uint32 (CalculateLux l bb ir)),
          GaugeSet ''sensor_light_raw'' [''tsl2561'', ''indoor'', ''broadband'']
            (float64_of_uint16 bb),
          GaugeSet ''sensor_light_raw'' [''tsl2561'', ''indoor'', ''infrared'']
            (float64_of_uint16 ir)])
    \<and> (tsl = Some l \<and> isl (GetLuminocity l) \<longrightarrow>
       writes_for ''tsl2561'' evs = [] \<and>
       (\<forall>name lvs. gauges s' (name, ''tsl2561'' # lvs) = gauges s (name, ''tsl2561'' # lvs)))"
proof -
  have bme_ok: "writes_for ''bme280'' evs = writes_for ''bme280'' (bme280_events mexp bme)"
    by (simp add: evs_def cycle_writes sht2x_events_writes tsl2561_events_writes)
  have sht_ok: "writes_for ''sht2x'' evs = writes_for ''sht2x'' (sht2x_events mexp sht)"
    by (simp add: evs_def cycle_writes bme280_events_writes tsl2561_events_writes)
  have tsl_ok: "writes_for ''tsl2561'' evs = writes_for ''tsl2561'' (tsl2561_events tsl)"
    by (simp add: evs_def cycle_writes bme280_events_writes sht2x_events_writes)
  have g_bme: "gauges s' (name, ''bme280'' # lvs) =
      gauges (update_bme280 mexp bme s) (name, ''bme280'' # lvs)" for name lvs
    by (simp add: s'_def updateSensors_def gauges_other_sht2x gauges_other_tsl2561)
  have g_sht: "gauges s' (name, ''sht2x'' # lvs) =
      gauges (update_sht2x mexp sht (update_bme280 mexp bme s)) (name, ''sht2x'' # lvs)" for name lvs
    by (simp add: s'_def updateSensors_def gauges_other_tsl2561)
  have g_tsl: "gauges s' = gauges (update_tsl2561 tsl (update_sht2x mexp sht (update_bme280 mexp bme s)))"
    by (simp add: s'_def updateSensors_def)
  show ?thesis
  proof (intro conjI impI allI)
    assume "bme = Some b \<and> bme_Temperature b = Inr t \<and> bme_Pressure b = Inr p \<and> bme_Humidity b = Inr h"
    then show "writes_for ''bme280'' evs =
         [GaugeSet ''sensor_temperature_celsius'' [''bme280'', ''indoor''] (float64_of_float32 t),
          GaugeSet ''sensor_pressure_hpa'' [''bme280'', ''indoor'']
            (fdiv (float64_of_float32 p) (const64 100)),
          GaugeSet ''sensor_humidity_percent'' [''bme280'', ''indoor''] (float64_of_float32 h),
          GaugeSet ''sensor_absolute_humidity_g_m3'' [''bme280'', ''indoor'']
            (calcAbsoluteHumidity mexp (float64_of_float32 t) (float64_of_float32 h))]"
      by (simp add: bme_ok bme280_events_writes)
  next
    assume a: "bme = Some b \<and> (isl (bme_Temperature b) \<or> isl (bme_Pressure b) \<or> isl (bme_Humidity b))"
    then show "writes_for ''bme280'' evs = []"
      by (auto simp add: bme_ok bme280_events_writes split: sum.splits)
    fix name lvs
    from a have "gauges (update_bme280 mexp bme s) = gauges s"
      by (intro gauges_bme280_failed) auto
    then show "gauges s' (name, ''bme280'' # lvs) = gauges s (name, ''bme280'' # lvs)"
      by (simp add: g_bme)
  next
    assume "sht = Some c \<and> sht_Temperature c = Inr t' \<and> sht_Humidity c = Inr h'"
    then show "writes_for ''sht2x'' evs =
         [GaugeSet ''sensor_temperature_celsius'' [''sht2x'', ''indoor''] (float64_of_float32 t'),
          GaugeSet ''sensor_humidity_percent'' [''sht2x'', ''indoor''] (float64_of_float32 h'),
          GaugeSet ''sensor_absolute_humidity_g_m3'' [''sht2x'', ''indoor'']
            (calcAbsoluteHumidity mexp (float64_of_float32 t') (float64_of_float32 h'))]"
      by (simp add: sht_ok sht2x_events_writes)
  next
    assume a: "sht = Some c \<and> (isl (sht_Temperature c) \<or> isl (sht_Humidity c))"
    then show "writes_for ''sht2x'' evs = []"
      by (auto simp add: sht_ok sht2x_events_writes split: sum.splits)
    fix name lvs
    from a have "gauges (update_sht2x mexp sht (update_bme280 mexp bme s)) =
        gauges (update_bme280 mexp bme s)"
      by (intro gauges_sht2x_failed) auto
    then show "gauges s' (name, ''sht2x'' # lvs) = gauges s (name, ''sht2x'' # lvs)"
      by (simp add: g_sht gauges_other_bme280)
  next
    assume "tsl = Some l \<and> GetLuminocity l = Inr (bb, ir)"
    then show "writes_for ''tsl2561'' evs =
         [GaugeSet ''sensor_illuminance_lux'' [''tsl2561'', ''indoor'']
            (float64_of_uint32 (CalculateLux l bb ir)),
          GaugeSet ''sensor_light_raw'' [''tsl2561'', ''indoor'', ''broadband'']
            (float64_of_uint16 bb),
          GaugeSet ''sensor_light_raw'' [''tsl2561'', ''indoor'', ''infrared'']
            (float64_of_uint16 ir)]"
      by (simp add: tsl_ok tsl2561_events_writes)
  next
    assume a: "tsl = Some l \<and> isl (GetLuminocity l)"
    then show "writes_for ''tsl2561'' evs = []"
      by (auto simp add: tsl_ok tsl2561_events_writes split: sum.splits)
    fix name lvs
    from a have "gauges s' = gauges (update_sht2x mexp sht (update_bme280 mexp bme s))"
      unfolding g_tsl by (intro gauges_tsl2561_failed) auto
    then show "gauges s' (name, ''tsl2561'' # lvs) = gauges s (name, ''tsl2561'' # lvs)"
      by (simp add: gauges_other_bme280 gauges_other_sht2x)
  qed
qed

theorem updateSensors_all_or_nothing_witness:
  "writes_for ''bme280'' (cycle_events exp64 (Some example_bme) (Some failing_sht) (Some example_tsl) init_state) =
     [GaugeSet ''sensor_temperature_celsius'' [''bme280'', ''indoor''] (Fin 22),
      GaugeSet ''sensor_pressure_hpa'' [''bme280'', ''indoor''] (fdiv (Fin 101325) (const64 100)),
      GaugeSet ''sensor_humidity_percent'' [''bme280'', ''indoor''] (Fin 45),
      GaugeSet ''sensor_absolute_humidity_g_m3'' [''bme280'', ''indoor'']
        (calcAbsoluteHumidity exp64 (Fin 22) (Fin 45))]
   \<and> writes_for ''sht2x'' (cycle_events exp64 (Some example_bme) (Some failing_sht) (Some example_tsl) init_state) = []
   \<and> gauges (updateSensors exp64 (Some example_bme) (Some failing_sht) (Some example_tsl) init_state)
        (''sensor_humidity_percent'', [''sht2x'', ''indoor'']) = None
   \<and> writes_for ''tsl2561'' (cycle_events exp64 (Some example_bme) (Some failing_sht) (Some example_tsl) init_state) =
     [GaugeSet ''sensor_illuminance_lux'' [''tsl2561'', ''indoor''] (Fin 42),
      GaugeSet ''sensor_light_raw'' [''tsl2561'', ''indoor'', ''broadband''] (Fin 100),
      GaugeSet ''sensor_light_raw'' [''tsl2561'', ''indoor'', ''infrared''] (Fin 20)]"
  using updateSensors_all_or_nothing [where s = init_state and mexp = exp64
      and bme = "Some example_bme" and b = example_bme
      and t = "F32 (Fin 22)" and p = "F32 (Fin 101325)" and h = "F32 (Fin 45)"
      and sht = "Some failing_sht" and c = failing_sht
      and tsl = "Some example_tsl" and l = example_tsl and bb = 100 and ir = 20]
  by (simp add: example_bme_def failing_sht_def example_tsl_def init_state_def
      float64_of_uint16_def float64_of_uint32_def)

text \<open>
  C2. A source's writes in a cycle do not depend on the other sources: whatever the other
  two drivers are (nil, failing or succeeding), the \<open>Set\<close> calls for the device and the
  values of its gauges after the cycle are the same.
\<close>

theorem updateSensors_isolation:
  "writes_for ''bme280'' (cycle_events mexp bme sht tsl s) =
     writes_for ''bme280'' (cycle_events mexp bme sht' tsl' s)
   \<and> writes_for ''sht2x'' (cycle_events mexp bme sht tsl s) =
     writes_for ''sht2x'' (cycle_events mexp bme' sht tsl' s)
   \<and> writes_for ''tsl2561'' (cycle_events mexp bme sht tsl s) =
     writes_for ''tsl2561'' (cycle_events mexp bme' sht' tsl s)
   \<and> gauges (updateSensors mexp bme sht tsl s) (name, ''bme280'' # lvs) =
     gauges (updateSensors mexp bme sht' tsl' s) (name, ''bme280'' # lvs)
   \<and> gauges (updateSensors mexp bme sht tsl s) (name, ''sht2x'' # lvs) =
     gauges (updateSensors mexp bme' sht tsl' s) (name, ''sht2x'' # lvs)
   \<and> gauges (updateSensors mexp bme sht tsl s) (name, ''tsl2561'' # lvs) =
     gauges (updateSensors mexp bme' sht' tsl s) (name, ''tsl2561'' # lvs)"
proof (intro conjI)
  show "writes_for ''bme280'' (cycle_events mexp bme sht tsl s) =
     writes_for ''bme280'' (cycle_events mexp bme sht' tsl' s)"
    by (simp add: cycle_writes sht2x_events_writes tsl2561_events_writes)
  show "writes_for ''sht2x'' (cycle_events mexp bme sht tsl s) =
     writes_for ''sht2x'' (cycle_events mexp bme' sht tsl' s)"
    by (simp add: cycle_writes bme280_events_writes tsl2561_events_writes)
  show "writes_for ''tsl2561'' (cycle_events mexp bme sht tsl s) =
     writes_for ''tsl2561'' (cycle_events mexp bme' sht' tsl s)"
    by (simp add: cycle_writes bme280_events_writes sht2x_events_writes)
  show "gauges (updateSensors mexp bme sht tsl s) (name, ''bme280'' # lvs) =
     gauges (updateSensors mexp bme sht' tsl' s) (name, ''bme280'' # lvs)"
    by (simp add: updateSensors_def gauges_other_sht2x gauges_other_tsl2561)
  show "gauges (updateSensors mexp bme sht tsl s) (name, ''sht2x'' # lvs) =
     gauges (updateSensors mexp bme' sht tsl' s) (name, ''sht2x'' # lvs)"
    unfolding updateSensors_def by (simp add: gauges_other_tsl2561, rule sht_key, simp add: gauges_other_bme280)
  show "gauges (updateSensors mexp bme sht tsl s) (name, ''tsl2561'' # lvs) =
     gauges (updateSensors mexp bme' sht' tsl s) (name, ''tsl2561'' # lvs)"
    unfolding updateSensors_def by (rule tsl_key, simp add: gauges_other_sht2x gauges_other_bme280)
qed

theorem updateSensors_isolation_witness:
  "writes_for ''sht2x'' (cycle_events exp64 (Some failing_bme) (Some example_sht) (Some failing_tsl) init_state) =
     writes_for ''sht2x'' (cycle_events exp64 (Some example_bme) (Some example_sht) (Some example_tsl) init_state)
   \<and> writes_for ''sht2x'' (cycle_events exp64 (Some failing_bme) (Some example_sht) (Some failing_tsl) init_state) =
     [GaugeSet ''sensor_temperature_celsius'' [''sht2x'', ''indoor''] (Fin 21.5),
      GaugeSet ''sensor_humidity_percent'' [''sht2x'', ''indoor''] (Fin 40),
      GaugeSet ''sensor_absolute_humidity_g_m3'' [''sht2x'', ''indoor'']
        (calcAbsoluteHumidity exp64 (Fin 21.5) (Fin 40))]"
  using updateSensors_isolation [where mexp = exp64 and bme = "Some failing_bme"
      and sht = "Some example_sht" and tsl = "Some failing_tsl" and s = init_state
      and bme' = "Some example_bme" and tsl' = "Some example_tsl"]
  by (simp add: cycle_writes bme280_events_writes sht2x_events_writes tsl2561_events_writes
      example_sht_def)

text \<open>
  C4. When the three reads of the BME280 succeed with \<open>t\<close>, \<open>p\<close> and \<open>h\<close>, the cycle leaves
  the temperature gauge at \<open>t\<close>, the pressure gauge at \<open>p / 100\<close> (the float64 division:
  for a finite \<open>p\<close>, the rounded quotient), the humidity gauge at \<open>h\<close> and the absolute
  humidity gauge at \<open>calcAbsoluteHumidity t h\<close>, from the readings of that same cycle.
\<close>

theorem updateSensors_bme280_values:
  assumes "bme = Some b" and "bme_Temperature b = Inr t" and "bme_Pressure b = Inr p"
    and "bme_Humidity b = Inr h"
  shows "gauges (updateSensors mexp bme sht tsl s) (''sensor_temperature_celsius'', [''bme280'', ''indoor''])
           = Some (float64_of_float32 t)
       \<and> gauges (updateSensors mexp bme sht tsl s) (''sensor_pressure_hpa'', [''bme280'', ''indoor''])
           = Some (fdiv (float64_of_float32 p) (const64 100))
       \<and> (\<forall>x. float64_of_float32 p = Fin x \<longrightarrow>
             fdiv (float64_of_float32 p) (const64 100) = round64 (x < 0) (x / 100))
       \<and> gauges (updateSensors mexp bme sht tsl s) (''sensor_humidity_percent'', [''bme280'', ''indoor''])
           = Some (float64_of_float32 h)
       \<and> gauges (updateSensors mexp bme sht tsl s) (''sensor_absolute_humidity_g_m3'', [''bme280'', ''indoor''])
           = Some (calcAbsoluteHumidity mexp (float64_of_float32 t) (float64_of_float32 h))"
  using assms
  by (simp add: updateSensors_def gauges_other_sht2x gauges_other_tsl2561 gauges_update_bme280
      fdiv_Fin_100)

theorem updateSensors_bme280_values_witness:
  "gauges (updateSensors exp64 (Some example_bme) (Some example_sht) (Some example_tsl) init_state)
      (''sensor_temperature_celsius'', [''bme280'', ''indoor'']) = Some (Fin 22.0)
   \<and> gauges (updateSensors exp64 (Some example_bme) (Some example_sht) (Some example_tsl) init_state)
      (''sensor_pressure_hpa'', [''bme280'', ''indoor'']) = Some (Fin 1013.25)
   \<and> gauges (updateSensors exp64 (Some example_bme) (Some example_sht) (Some example_tsl) init_state)
      (''sensor_humidity_percent'', [''bme280'', ''indoor'']) = Some (Fin 45.0)
   \<and> gauges (updateSensors exp64 (Some example_bme) (Some example_sht) (Some example_tsl) init_state)
      (''sensor_absolute_humidity_g_m3'', [''bme280'', ''indoor''])
        = Some (calcAbsoluteHumidity exp64 (Fin 22.0) (Fin 45.0))"
  using updateSensors_bme280_values [where bme = "Some example_bme" and b = example_bme
      and t = "F32 (Fin 22)" and p = "F32 (Fin 101325)" and h = "F32 (Fin 45)"
      and mexp = exp64 and sht = "Some example_sht" and tsl = "Some example_tsl"
      and s = init_state]
    round64_1013_25
  by (simp add: example_bme_def)

text \<open>
  C5. When the luminosity read of the TSL2561 succeeds with \<open>(bb, ir)\<close>, the cycle leaves
  the raw gauges at \<open>bb\<close> (broadband) and \<open>ir\<close> (infrared) and the illuminance gauge at the
  driver's \<open>CalculateLux bb ir\<close>.
\<close>

theorem updateSensors_light_values:
  assumes "tsl = Some l" and "GetLuminocity l = Inr (bb, ir)"
  shows "gauges (updateSensors mexp bme sht tsl s) (''sensor_light_raw'', [''tsl2561'', ''indoor'', ''broadband''])
           = Some (float64_of_uint16 bb)
       \<and> gauges (updateSensors mexp bme sht tsl s) (''sensor_light_raw'', [''tsl2561'', ''indoor'', ''infrared''])
           = Some (float64_of_uint16 ir)
       \<and> gauges (updateSensors mexp bme sht tsl s) (''sensor_illuminance_lux'', [''tsl2561'', ''indoor''])
           = Some (float64_of_uint32 (CalculateLux l bb ir))
       \<and> writes_for ''tsl2561'' (cycle_events mexp bme sht tsl s) =
           [GaugeSet ''sensor_illuminance_lux'' [''tsl2561'', ''indoor'']
              (float64_of_uint32 (CalculateLux l bb ir)),
            GaugeSet ''sensor_light_raw'' [''tsl2561'', ''indoor'', ''broadband'']
              (float64_of_uint16 bb),
            GaugeSet ''sensor_light_raw'' [''tsl2561'', ''indoor'', ''infrared'']
              (float64_of_uint16 ir)]"
  using assms
  by (simp add: updateSensors_def gauges_update_tsl2561 cycle_writes bme280_events_writes
      sht2x_events_writes tsl2561_events_writes)

theorem updateSensors_light_values_witness:
  "gauges (updateSensors exp64 (Some failing_bme) None (Some example_tsl) init_state)
      (''sensor_light_raw'', [''tsl2561'', ''indoor'', ''broadband'']) = Some (Fin 100)
   \<and> gauges (updateSensors exp64 (Some failing_bme) None (Some example_tsl) init_state)
      (''sensor_light_raw'', [''tsl2561'', ''indoor'', ''infrared'']) = Some (Fin 20)
   \<and> gauges (updateSensors exp64 (Some failing_bme) None (Some example_tsl) init_state)
      (''sensor_illuminance_lux'', [''tsl2561'', ''indoor'']) = Some (Fin 42)"
  using updateSensors_light_values [where tsl = "Some example_tsl" and l = example_tsl
      and bb = 100 and ir = 20 and mexp = exp64 and bme = "Some failing_bme" and sht = None
      and s = init_state]
  by (simp add: example_tsl_def float64_of_uint16_def float64_of_uint32_def)

text \<open>
  C7. A source whose \<open>Start\<close> failed is nil for the whole loop: after any number of
  cycles the trace holds no read of the device and no \<open>Set\<close> for it, and none of its
  gauges has a value.
\<close>

theorem absent_source_never_polled:
  assumes "main_cycles mexp hw n = Inr s"
  shows "(bme_start hw \<noteq> None \<longrightarrow>
            reads_for ''bme280'' (trace s) = [] \<and> writes_for ''bme280'' (trace s) = [] \<and>
            (\<forall>name lvs. gauges s (name, ''bme280'' # lvs) = None))
       \<and> (sht_start hw \<noteq> None \<longrightarrow>
            reads_for ''sht2x'' (trace s) = [] \<and> writes_for ''sht2x'' (trace s) = [] \<and>
            (\<forall>name lvs. gauges s (name, ''sht2x'' # lvs) = None))
       \<and> (tsl_start hw \<noteq> None \<longrightarrow>
            reads_for ''tsl2561'' (trace s) = [] \<and> writes_for ''tsl2561'' (trace s) = [] \<and>
            (\<forall>name lvs. gauges s (name, ''tsl2561'' # lvs) = None))"
proof -
  from main_cycles_Inr [OF assms] obtain s3 where
    s: "s = poll_cycles mexp
           (if bme_start hw = None then Some (bme_dev hw) else None)
           (if sht_start hw = None then Some (sht_dev hw) else None)
           (if tsl_start hw = None then Some (tsl_dev hw) else None) n s3"
    and g: "gauges s3 = Map.empty"
    and r: "\<And>dev. reads_for dev (trace s3) = []"
    and w: "\<And>dev. writes_for dev (trace s3) = []"
    by blast
  show ?thesis
    unfolding s
    by (intro conjI impI allI)
      (simp_all add: gauges_poll_cycles_absent reads_poll_cycles_absent
        writes_poll_cycles_absent g r w)
qed

theorem absent_source_never_polled_witness:
  "\<exists>s. main_cycles exp64 example_hardware 3 = Inr s
     \<and> reads_for ''sht2x'' (trace s) = [] \<and> writes_for ''sht2x'' (trace s) = []
     \<and> gauges s (''sensor_temperature_celsius'', [''sht2x'', ''indoor'']) = None"
proof -
  obtain s where s: "main_cycles exp64 example_hardware 3 = Inr s"
    using main_cycles_example [of 3] by blast
  have "sht_start example_hardware \<noteq> None"
    by (simp add: example_hardware_def)
  with absent_source_never_polled [OF s] s show ?thesis
    by blast
qed

text \<open>
  C9. Every \<open>Set\<close> of a cycle, and of the whole loop, is on one of ten series: location
  \<open>indoor\<close>; pressure with device \<open>bme280\<close> only; illuminance and raw light with
  \<open>tsl2561\<close> only; temperature, humidity and absolute humidity with \<open>bme280\<close> or
  \<open>sht2x\<close>.
\<close>

theorem gauge_labels_fixed:
  "set (write_keys (cycle_events mexp bme sht tsl s)) \<subseteq>
     {(''sensor_temperature_celsius'', [''bme280'', ''indoor'']),
      (''sensor_pressure_hpa'', [''bme280'', ''indoor'']),
      (''sensor_humidity_percent'', [''bme280'', ''indoor'']),
      (''sensor_absolute_humidity_g_m3'', [''bme280'', ''indoor'']),
      (''sensor_temperature_celsius'', [''sht2x'', ''indoor'']),
      (''sensor_humidity_percent'', [''sht2x'', ''indoor'']),
      (''sensor_absolute_humidity_g_m3'', [''sht2x'', ''indoor'']),
      (''sensor_illuminance_lux'', [''tsl2561'', ''indoor'']),
      (''sensor_light_raw'', [''tsl2561'', ''indoor'', ''broadband'']),
      (''sensor_light_raw'', [''tsl2561'', ''indoor'', ''infrared''])}
   \<and> (main_cycles mexp hw n = Inr s' \<longrightarrow>
      set (write_keys (trace s')) \<subseteq>
     {(''sensor_temperature_celsius'', [''bme280'', ''indoor'']),
      (''sensor_pressure_hpa'', [''bme280'', ''indoor'']),
      (''sensor_humidity_percent'', [''bme280'', ''indoor'']),
      (''sensor_absolute_humidity_g_m3'', [''bme280'', ''indoor'']),
      (''sensor_temperature_celsius'', [''sht2x'', ''indoor'']),
      (''sensor_humidity_percent'', [''sht2x'', ''indoor'']),
      (''sensor_absolute_humidity_g_m3'', [''sht2x'', ''indoor'']),
      (''sensor_illuminance_lux'', [''tsl2561'', ''indoor'']),
      (''sensor_light_raw'', [''tsl2561'', ''indoor'', ''broadband'']),
      (''sensor_light_raw'', [''tsl2561'', ''indoor'', ''infrared''])})"
proof (intro conjI impI)
  show "set (write_keys (cycle_events mexp bme sht tsl s)) \<subseteq>
     {(''sensor_temperature_celsius'', [''bme280'', ''indoor'']),
      (''sensor_pressure_hpa'', [''bme280'', ''indoor'']),
      (''sensor_humidity_percent'', [''bme280'', ''indoor'']),
      (''sensor_absolute_humidity_g_m3'', [''bme280'', ''indoor'']),
      (''sensor_temperature_celsius'', [''sht2x'', ''indoor'']),
      (''sensor_humidity_percent'', [''sht2x'', ''indoor'']),
      (''sensor_absolute_humidity_g_m3'', [''sht2x'', ''indoor'']),
      (''sensor_illuminance_lux'', [''tsl2561'', ''indoor'']),
      (''sensor_light_raw'', [''tsl2561'', ''indoor'', ''broadband'']),
      (''sensor_light_raw'', [''tsl2561'', ''indoor'', ''infrared''])}"
    using cycle_events_keys [of mexp bme sht tsl s] unfolding gauge_keys_def .
  assume "main_cycles mexp hw n = Inr s'"
  from main_cycles_Inr [OF this] obtain s3 where
    s: "s' = poll_cycles mexp
           (if bme_start hw = None then Some (bme_dev hw) else None)
           (if sht_start hw = None then Some (sht_dev hw) else None)
           (if tsl_start hw = None then Some (tsl_dev hw) else None) n s3"
    and k: "write_keys (trace s3) = []"
    by blast
  show "set (write_keys (trace s')) \<subseteq>
     {(''sensor_temperature_celsius'', [''bme280'', ''indoor'']),
      (''sensor_pressure_hpa'', [''bme280'', ''indoor'']),
      (''sensor_humidity_percent'', [''bme280'', ''indoor'']),
      (''sensor_absolute_humidity_g_m3'', [''bme280'', ''indoor'']),
      (''sensor_temperature_celsius'', [''sht2x'', ''indoor'']),
      (''sensor_humidity_percent'', [''sht2x'', ''indoor'']),
      (''sensor_absolute_humidity_g_m3'', [''sht2x'', ''indoor'']),
      (''sensor_illuminance_lux'', [''tsl2561'', ''indoor'']),
      (''sensor_light_raw'', [''tsl2561'', ''indoor'', ''broadband'']),
      (''sensor_light_raw'', [''tsl2561'', ''indoor'', ''infrared''])}"
    using poll_cycles_keys [of mexp _ _ _ n s3] unfolding s gauge_keys_def by (simp add: k)
qed

theorem gauge_labels_fixed_witness:
  "set (write_keys (cycle_events exp64 (Some example_bme) (Some example_sht) (Some example_tsl)
      init_state)) \<subseteq> gauge_keys
   \<and> (\<exists>s. main_cycles exp64 example_hardware 3 = Inr s \<and>
         set (write_keys (trace s)) \<subseteq> gauge_keys)"
proof -
  obtain s where s: "main_cycles exp64 example_hardware 3 = Inr s"
    using main_cycles_example [of 3] by blast
  show ?thesis
    using gauge_labels_fixed [where mexp = exp64 and bme = "Some example_bme"
      and sht = "Some example_sht" and tsl = "Some example_tsl" and s = init_state
      and hw = example_hardware and n = 3 and s' = s, folded gauge_keys_def] s
    by blast
qed

section \<open>The claims about calcAbsoluteHumidity\<close>

text \<open>
  C3. \<open>calcAbsoluteHumidity\<close> is the double-precision evaluation of Bolton's formula as the
  specification writes it, and with a \<open>math.Exp\<close> of the assumed accuracy the value at
  25 degrees and 50 percent is within 0.01 of 11.51.
\<close>

theorem calcAbsoluteHumidity_bolton:
  "calcAbsoluteHumidity mexp t rh = computeAbsoluteHumidity mexp t rh
   \<and> (exp_spec mexp \<longrightarrow>
        (\<exists>r. calcAbsoluteHumidity mexp (Fin 25.0) (Fin 50.0) = Fin r \<and> \<bar>r - 11.51\<bar> \<le> 1 / 100))"
proof (intro conjI impI)
  show "calcAbsoluteHumidity mexp t rh = computeAbsoluteHumidity mexp t rh"
    unfolding calcAbsoluteHumidity_def computeAbsoluteHumidity_def Let_def ..
  assume "exp_spec mexp"
  then have "\<exists>r. calcAbsoluteHumidity mexp (Fin 25) (Fin 50) = Fin r \<and> \<bar>r - 11.51\<bar> \<le> 1 / 100"
    by (rule calc_25_50)
  then show "\<exists>r. calcAbsoluteHumidity mexp (Fin 25.0) (Fin 50.0) = Fin r \<and> \<bar>r - 11.51\<bar> \<le> 1 / 100"
    by simp
qed

theorem calcAbsoluteHumidity_bolton_witness:
  "calcAbsoluteHumidity exp64 (Fin 25.0) (Fin 50.0) = computeAbsoluteHumidity exp64 (Fin 25.0) (Fin 50.0)
   \<and> (\<exists>r. calcAbsoluteHumidity exp64 (Fin 25.0) (Fin 50.0) = Fin r \<and> \<bar>r - 11.51\<bar> \<le> 1 / 100)"
  using calcAbsoluteHumidity_bolton [of exp64 "Fin 25.0" "Fin 50.0"] exp_spec_exp64
  by blast






end
